theory Spec2Isabelle
  imports Main "HOL-Library.Word"
begin

section \<open>Force-feedback data of the kernel interface\<close>

text \<open>
  The fixed-width fields of \<^verbatim>\<open>linux/input.h\<close> and \<^verbatim>\<open>linux/uinput.h\<close>.
  A \<^verbatim>\<open>__u16\<close> and a \<^verbatim>\<open>__s16\<close> are both 16-bit words; the unsigned one is read
  with \<open>uint\<close>, the signed one with \<open>sint\<close>. \<^verbatim>\<open>std::uint32_t\<close> is a 32-bit word, whose
  \<open>+\<close>, \<open>-\<close>, \<open>*\<close> wrap and whose \<open>div\<close> is the unsigned division.
\<close>

type_synonym u16 = "16 word"
type_synonym s16 = "16 word"
type_synonym u32 = "32 word"
type_synonym s32 = "32 word"

text \<open>\<^verbatim>\<open>static constexpr int MAX_GAIN = 0xFFFF;\<close>\<close>

definition MAX_GAIN :: int where
  "MAX_GAIN = 0xFFFF"

text \<open>\<^verbatim>\<open>struct ff_envelope\<close>: four \<^verbatim>\<open>__u16\<close> fields.\<close>

record ff_envelope =
  attack_length :: u16
  attack_level :: u16
  fade_length :: u16
  fade_level :: u16

text \<open>The value-initialised envelope \<^verbatim>\<open>.envelope = {}\<close>.\<close>

definition no_envelope :: ff_envelope where
  "no_envelope = \<lparr>attack_length = 0, attack_level = 0, fade_length = 0, fade_level = 0\<rparr>"

text \<open>
  The union \<^verbatim>\<open>ff_effect.u\<close> together with its discriminating \<^verbatim>\<open>type\<close> field, as a
  tagged union. Only the members that \<^verbatim>\<open>create_rumble_effect\<close> reads are kept: the
  constant level, the periodic magnitude and the ramp levels are \<^verbatim>\<open>__s16\<close>, the rumble
  magnitudes are \<^verbatim>\<open>__u16\<close>. \<open>FF_OTHER\<close> stands for every type the \<^verbatim>\<open>switch\<close> has no
  case for (spring, friction, damper, inertia).
\<close>

datatype ff_union =
    FF_CONSTANT s16 ff_envelope
  | FF_PERIODIC s16 ff_envelope
  | FF_RAMP s16 s16 ff_envelope
  | FF_RUMBLE u16 u16
  | FF_OTHER

text \<open>
  \<^verbatim>\<open>struct ff_effect\<close>: the id (\<^verbatim>\<open>__s16\<close>), the replay length and delay
  (\<^verbatim>\<open>__u16\<close>, milliseconds) and the typed payload. \<open>FF_RUMBLE strong weak\<close> lists the
  magnitudes in the order of \<^verbatim>\<open>struct ff_rumble_effect\<close>.
\<close>

record ff_effect =
  ff_id :: s16
  replay_length :: u16
  replay_delay :: u16
  u :: ff_union

section \<open>Active rumble effects\<close>

text \<open>
  The anonymous \<^verbatim>\<open>struct { std::uint32_t weak, strong; }\<close> of the fields
  \<^verbatim>\<open>start\<close> and \<^verbatim>\<open>end\<close>.
\<close>

record magnitudes =
  weak :: u32
  strong :: u32

text \<open>
  \<^verbatim>\<open>struct ActiveRumbleEffect\<close>. Time points of the steady clock are integers counting
  nanoseconds, \<^verbatim>\<open>std::chrono::milliseconds\<close> is an integer counting milliseconds
  (both are 64-bit in the program; no value here comes near that range). The fields
  \<^verbatim>\<open>start\<close>, \<^verbatim>\<open>end\<close> and \<^verbatim>\<open>length\<close> are named \<open>start_mag\<close>, \<open>end_mag\<close> and
  \<open>length_ms\<close>. \<open>gain\<close> is a C \<^verbatim>\<open>int\<close>.
\<close>

record ActiveRumbleEffect =
  effect_id :: int
  start_point :: int
  end_point :: int
  length_ms :: int
  envelope :: ff_envelope
  start_mag :: magnitudes
  end_mag :: magnitudes
  gain :: int
  previous :: "u32 \<times> u32"

subsection \<open>Integer arithmetic of the program\<close>

text \<open>
  Signed division of C++ truncates towards zero, and a zero divisor is undefined
  behaviour: \<open>None\<close>.
\<close>

definition cdiv :: "int \<Rightarrow> int \<Rightarrow> int option" where
  "cdiv a b = (if b = 0 then None else Some (sgn a * sgn b * (\<bar>a\<bar> div \<bar>b\<bar>)))"

text \<open>
  \<^verbatim>\<open>std::chrono::duration_cast<std::chrono::milliseconds>\<close> of a nanosecond count:
  division by 1000000, truncating towards zero.
\<close>

definition duration_cast_ms :: "int \<Rightarrow> int" where
  "duration_cast_ms ns = sgn ns * (\<bar>ns\<bar> div 1000000)"

text \<open>The implicit conversion of milliseconds to the clock's nanoseconds.\<close>

definition ms_to_ns :: "int \<Rightarrow> int" where
  "ms_to_ns ms = ms * 1000000"

text \<open>\<^verbatim>\<open>std::clamp(v, lo, hi)\<close>; on words the order is the unsigned one.\<close>

definition clamp :: "'a::linorder \<Rightarrow> 'a \<Rightarrow> 'a \<Rightarrow> 'a" where
  "clamp v lo hi = (if v < lo then lo else if hi < v then hi else v)"

subsection \<open>The envelope simulator\<close>

text \<open>
  \<^verbatim>\<open>rumble_magnitude\<close>: \<open>rel\<close> is a 32-bit difference (it wraps); the product with the
  64-bit millisecond count, the quotient and the sum are 64-bit, and the returned value is
  converted back to 32 bits.
\<close>

definition rumble_magnitude :: "int \<Rightarrow> u32 \<Rightarrow> u32 \<Rightarrow> int \<Rightarrow> u32 option" where
  "rumble_magnitude time_left start endv len =
     (let rel = endv - start in
      case cdiv (uint rel * time_left) len of
        None \<Rightarrow> None
      | Some q \<Rightarrow> Some (word_of_int (uint start + q)))"

text \<open>
  The expression shared by the attack and the fade branch,
  \<^verbatim>\<open>(level * x + cur * (len - x)) / len\<close>, computed in 64 bits and stored into a 32-bit
  variable; \<open>cur\<close> is the variable's value before the assignment.
\<close>

definition envelope_mix :: "u16 \<Rightarrow> int \<Rightarrow> u32 \<Rightarrow> u16 \<Rightarrow> u32 option" where
  "envelope_mix level x cur len =
     (case cdiv (uint level * x + uint cur * (uint len - x)) (uint len) of
        None \<Rightarrow> None
      | Some q \<Rightarrow> Some (word_of_int q))"

text \<open>
  \<^verbatim>\<open>weak * effect.gain / MAX_GAIN\<close>: the \<^verbatim>\<open>int\<close> operands are converted to
  \<^verbatim>\<open>unsigned\<close>, so product and quotient are 32-bit unsigned.
\<close>

definition apply_gain :: "u32 \<Rightarrow> int \<Rightarrow> u32" where
  "apply_gain v g = v * word_of_int g div word_of_int MAX_GAIN"

text \<open>The three branches of \<^verbatim>\<open>simulate_rumble\<close> before the gain is applied.\<close>

definition phase_values :: "ActiveRumbleEffect \<Rightarrow> int \<Rightarrow> int \<Rightarrow> (u32 \<times> u32) option" where
  "phase_values effect time_left t =
     (let env = envelope effect; weak0 = 0; strong0 = 0 in
      if t < uint (attack_length env) then
        (case envelope_mix (attack_level env) t weak0 (attack_length env) of
           None \<Rightarrow> None
         | Some w \<Rightarrow>
            (case envelope_mix (attack_level env) t strong0 (attack_length env) of
               None \<Rightarrow> None
             | Some s \<Rightarrow> Some (w, s)))
      else if time_left < uint (fade_length env) then
        (let dt = (t - length_ms effect) + uint (fade_length env) in
         case envelope_mix (fade_level env) dt weak0 (fade_length env) of
           None \<Rightarrow> None
         | Some w \<Rightarrow>
            (case envelope_mix (fade_level env) dt strong0 (fade_length env) of
               None \<Rightarrow> None
             | Some s \<Rightarrow> Some (w, s)))
      else
        (case rumble_magnitude t (weak (start_mag effect)) (weak (end_mag effect))
                (length_ms effect) of
           None \<Rightarrow> None
         | Some w \<Rightarrow>
            (case rumble_magnitude t (strong (start_mag effect)) (strong (end_mag effect))
                    (length_ms effect) of
               None \<Rightarrow> None
             | Some s \<Rightarrow> Some (w, s))))"

text \<open>
  \<^verbatim>\<open>simulate_rumble\<close>: the returned pair is \<open>(weak, strong)\<close>; \<open>None\<close> is a division
  by zero.
\<close>

definition simulate_rumble :: "ActiveRumbleEffect \<Rightarrow> int \<Rightarrow> (u32 \<times> u32) option" where
  "simulate_rumble effect now =
     (if end_point effect < now \<or> now < start_point effect then Some (0, 0)
      else
        let time_left = duration_cast_ms (end_point effect - now);
            t = length_ms effect - time_left
        in case phase_values effect time_left t of
             None \<Rightarrow> None
           | Some (w, s) \<Rightarrow> Some (apply_gain w (gain effect), apply_gain s (gain effect)))"

text \<open>
  \<^verbatim>\<open>create_rumble_effect\<close>; the last argument is what \<^verbatim>\<open>steady_clock::now()\<close>
  returns inside it. The members the designated initialiser leaves out (\<^verbatim>\<open>start\<close>,
  \<^verbatim>\<open>end\<close>, \<^verbatim>\<open>previous\<close>) are zero. A signed level converts to 32 bits by sign
  extension (\<open>word_of_int (sint l)\<close>), an unsigned magnitude by zero extension.
\<close>

definition create_rumble_effect :: "int \<Rightarrow> int \<Rightarrow> ff_effect \<Rightarrow> int \<Rightarrow> ActiveRumbleEffect" where
  "create_rumble_effect eid effect_gain effect now =
     (let delay = uint (clamp (replay_delay effect) 0 32767);
          len = uint (clamp (replay_length effect) 0 32767);
          r_effect = \<lparr>effect_id = eid,
                      start_point = now + ms_to_ns delay,
                      end_point = now + ms_to_ns delay + ms_to_ns len,
                      length_ms = len,
                      envelope = no_envelope,
                      start_mag = \<lparr>weak = 0, strong = 0\<rparr>,
                      end_mag = \<lparr>weak = 0, strong = 0\<rparr>,
                      gain = effect_gain,
                      previous = (0, 0)\<rparr>
      in case u effect of
           FF_CONSTANT level env \<Rightarrow>
             r_effect\<lparr>start_mag := \<lparr>weak = word_of_int (sint level), strong = word_of_int (sint level)\<rparr>,
                      end_mag := \<lparr>weak = word_of_int (sint level), strong = word_of_int (sint level)\<rparr>,
                      envelope := env\<rparr>
         | FF_PERIODIC magnitude env \<Rightarrow>
             r_effect\<lparr>start_mag := \<lparr>weak = word_of_int (sint magnitude), strong = word_of_int (sint magnitude)\<rparr>,
                      end_mag := \<lparr>weak = word_of_int (sint magnitude), strong = word_of_int (sint magnitude)\<rparr>,
                      envelope := env\<rparr>
         | FF_RAMP start_level end_level env \<Rightarrow>
             r_effect\<lparr>start_mag := \<lparr>weak = word_of_int (sint start_level), strong = word_of_int (sint start_level)\<rparr>,
                      end_mag := \<lparr>weak = word_of_int (sint end_level), strong = word_of_int (sint end_level)\<rparr>,
                      envelope := env\<rparr>
         | FF_RUMBLE strong_magnitude weak_magnitude \<Rightarrow>
             r_effect\<lparr>start_mag := \<lparr>weak = word_of_int (uint weak_magnitude), strong = word_of_int (uint strong_magnitude)\<rparr>,
                      end_mag := \<lparr>weak = word_of_int (uint weak_magnitude), strong = word_of_int (uint strong_magnitude)\<rparr>\<rparr>
         | FF_OTHER \<Rightarrow> r_effect)"

section \<open>The event listener\<close>

text \<open>Event types and codes of \<^verbatim>\<open>linux/input-event-codes.h\<close> and \<^verbatim>\<open>linux/uinput.h\<close>.\<close>

definition EV_UINPUT :: u16 where "EV_UINPUT = 0x0101"
definition UI_FF_UPLOAD :: u16 where "UI_FF_UPLOAD = 1"
definition UI_FF_ERASE :: u16 where "UI_FF_ERASE = 2"
definition EV_FF :: u16 where "EV_FF = 0x15"
definition EV_LED :: u16 where "EV_LED = 0x11"
definition FF_GAIN :: u16 where "FF_GAIN = 0x60"

text \<open>
  One element of what \<^verbatim>\<open>fetch_events\<close> returns: the \<^verbatim>\<open>input_event\<close> triple
  (\<^verbatim>\<open>__u16 type\<close>, \<^verbatim>\<open>__u16 code\<close>, \<^verbatim>\<open>__s32 value\<close>), together with what the
  environment answers while the event is handled: \<open>io_upload\<close> is the effect that
  \<^verbatim>\<open>UI_BEGIN_FF_UPLOAD\<close> stores into \<^verbatim>\<open>upload.effect\<close>, \<open>io_erase\<close> the
  \<^verbatim>\<open>__u32 effect_id\<close> that \<^verbatim>\<open>UI_BEGIN_FF_ERASE\<close> stores, and \<open>io_clock\<close> the reading of
  the steady clock inside \<^verbatim>\<open>create_rumble_effect\<close>.
\<close>

record fetched_event =
  ev_type :: u16
  ev_code :: u16
  ev_value :: s32
  io_upload :: ff_effect
  io_erase :: u32
  io_clock :: int

text \<open>
  The local variables of \<^verbatim>\<open>event_listener\<close>: the map \<^verbatim>\<open>ff_effects\<close>,
  \<^verbatim>\<open>current_gain\<close>, the vector \<^verbatim>\<open>active_effects\<close>, and the sequence of calls made to
  \<^verbatim>\<open>state->on_rumble\<close> so far, each with its two arguments in the order of the call.
\<close>

record listener_state =
  ff_effects :: "int \<rightharpoonup> ff_effect"
  current_gain :: int
  active_effects :: "ActiveRumbleEffect list"
  rumble_calls :: "(u32 \<times> u32) list"

definition initial_state :: listener_state where
  "initial_state = \<lparr>ff_effects = Map.empty, current_gain = MAX_GAIN,
                     active_effects = [], rumble_calls = []\<rparr>"

text \<open>
  \<^verbatim>\<open>std::remove_if\<close> with the predicate of the lambda \<^verbatim>\<open>remove_effects\<close>: the
  predicate is applied once to each element, in order, and calls \<^verbatim>\<open>on_rumble(0, 0)\<close>
  for an element to be removed when the optional callback holds a value
  (\<open>on_rumble\<close> is \<open>True\<close>). The result is the kept elements and the calls.
\<close>

fun remove_if :: "bool \<Rightarrow> (ActiveRumbleEffect \<Rightarrow> bool) \<Rightarrow> ActiveRumbleEffect list \<Rightarrow>
    (u32 \<times> u32) list \<Rightarrow> ActiveRumbleEffect list \<times> (u32 \<times> u32) list" where
  "remove_if on_rumble filter_fn [] calls = ([], calls)"
| "remove_if on_rumble filter_fn (effect # rest) calls =
     (let to_be_removed = filter_fn effect;
          calls' = (if to_be_removed \<and> on_rumble then calls @ [(0, 0)] else calls);
          (kept, calls'') = remove_if on_rumble filter_fn rest calls'
      in (if to_be_removed then kept else effect # kept, calls''))"

definition remove_effects :: "bool \<Rightarrow> (ActiveRumbleEffect \<Rightarrow> bool) \<Rightarrow> listener_state \<Rightarrow>
    listener_state" where
  "remove_effects on_rumble filter_fn s =
     (let (kept, calls) = remove_if on_rumble filter_fn (active_effects s) (rumble_calls s)
      in s\<lparr>active_effects := kept, rumble_calls := calls\<rparr>)"

text \<open>
  The body of \<^verbatim>\<open>for (auto ev : events)\<close>. The map key of an upload is the effect's
  \<^verbatim>\<open>__s16 id\<close> as an \<^verbatim>\<open>int\<close>. In the erase branch the \<^verbatim>\<open>int\<close> id of an instance is
  compared with a \<^verbatim>\<open>__u32\<close>, so it is converted to 32 bits unsigned first. In the last
  \<^verbatim>\<open>EV_FF\<close> branch the id is the \<^verbatim>\<open>__u16\<close> event code.
\<close>

definition process_event :: "bool \<Rightarrow> listener_state \<Rightarrow> fetched_event \<Rightarrow> listener_state" where
  "process_event on_rumble s ev =
     (if ev_type ev = EV_UINPUT \<and> ev_code ev = UI_FF_UPLOAD then
        s\<lparr>ff_effects := (ff_effects s)(sint (ff_id (io_upload ev)) \<mapsto> io_upload ev)\<rparr>
      else if ev_type ev = EV_UINPUT \<and> ev_code ev = UI_FF_ERASE then
        remove_effects on_rumble (\<lambda>effect. word_of_int (effect_id effect) = io_erase ev) s
      else if ev_type ev = EV_FF \<and> ev_code ev = FF_GAIN then
        s\<lparr>current_gain := clamp (sint (ev_value ev)) 0 MAX_GAIN\<rparr>
      else if ev_type ev = EV_FF then
        (let eid = uint (ev_code ev) in
         if ev_value ev \<noteq> 0 then
           (case ff_effects s eid of
              Some effect \<Rightarrow>
                s\<lparr>active_effects := active_effects s @
                     [create_rumble_effect eid (current_gain s) effect (io_clock ev)]\<rparr>
            | None \<Rightarrow> s)
         else remove_effects on_rumble (\<lambda>effect. effect_id effect = eid) s)
      else s)"

text \<open>
  The body of \<^verbatim>\<open>for (auto effect : active_effects)\<close> for one element; \<open>(w, s)\<close> is the
  structured binding \<^verbatim>\<open>[weak, strong]\<close>. The loop variable is a copy of the element: the
  function returns the copy as the body leaves it, and the calls.
\<close>

definition simulate_step :: "bool \<Rightarrow> int \<Rightarrow> ActiveRumbleEffect \<Rightarrow> (u32 \<times> u32) list \<Rightarrow>
    (ActiveRumbleEffect \<times> (u32 \<times> u32) list) option" where
  "simulate_step on_rumble now effect calls =
     (case simulate_rumble effect now of
        None \<Rightarrow> None
      | Some (w, s) \<Rightarrow>
          if fst (previous effect) \<noteq> w \<or> snd (previous effect) \<noteq> s then
            Some (effect\<lparr>previous := (w, s)\<rparr>,
                  if on_rumble then calls @ [(s, w)] else calls)
          else Some (effect, calls))"

text \<open>
  The loop over the vector. The copy that the body has assigned to goes out of scope at
  the end of each iteration; the vector keeps its elements.
\<close>

fun simulate_all :: "bool \<Rightarrow> int \<Rightarrow> ActiveRumbleEffect list \<Rightarrow> (u32 \<times> u32) list \<Rightarrow>
    (u32 \<times> u32) list option" where
  "simulate_all on_rumble now [] calls = Some calls"
| "simulate_all on_rumble now (effect # rest) calls =
     (case simulate_step on_rumble now effect calls of
        None \<Rightarrow> None
      | Some (copy, calls') \<Rightarrow> simulate_all on_rumble now rest calls')"

text \<open>
  One iteration of \<^verbatim>\<open>while (!state->stop_listening_events)\<close>: the fetched events in
  order, the sweep of the instances that have ended at \<open>now\<close>, the simulation of the
  remaining ones.
\<close>

definition tick :: "bool \<Rightarrow> listener_state \<Rightarrow> fetched_event list \<Rightarrow> int \<Rightarrow> listener_state option" where
  "tick on_rumble s events now =
     (let s1 = foldl (process_event on_rumble) s events;
          s2 = remove_effects on_rumble (\<lambda>effect. end_point effect \<le> now) s1
      in case simulate_all on_rumble now (active_effects s2) (rumble_calls s2) of
           None \<Rightarrow> None
         | Some calls \<Rightarrow> Some (s2\<lparr>rumble_calls := calls\<rparr>))"

text \<open>
  The \<^verbatim>\<open>while\<close> loop, for as many iterations as the list has elements: each one with
  the events it fetches and the clock reading it takes after handling them.
\<close>

fun run :: "bool \<Rightarrow> listener_state \<Rightarrow> (fetched_event list \<times> int) list \<Rightarrow> listener_state option" where
  "run on_rumble s [] = Some s"
| "run on_rumble s ((events, now) # rest) =
     (case tick on_rumble s events now of
        None \<Rightarrow> None
      | Some s' \<Rightarrow> run on_rumble s' rest)"

section \<open>Invariant of the active set\<close>

text \<open>
  The end point of an instance is its start point plus its length: this is how
  \<^verbatim>\<open>create_rumble_effect\<close> sets the three fields, and nothing changes them afterwards.
\<close>

definition well_timed :: "ActiveRumbleEffect \<Rightarrow> bool" where
  "well_timed e \<longleftrightarrow> end_point e = start_point e + ms_to_ns (length_ms e)"

section \<open>Wordings of the specification\<close>

text \<open>
  The sustain value as the specification words it,
  \<^verbatim>\<open>start + (end - start) * time_left / length\<close> with \<^verbatim>\<open>time_left = end_point - now\<close>, in the
  arithmetic of \<open>rumble_magnitude\<close>.
\<close>

definition sustain_by_time_left :: "u32 \<Rightarrow> u32 \<Rightarrow> int \<Rightarrow> int \<Rightarrow> u32" where
  "sustain_by_time_left start endv time_left len =
     word_of_int (uint start + uint (endv - start) * time_left div len)"

text \<open>
  The sustain value with all of its arithmetic modulo \<open>2^32\<close>: the difference, the
  product with the elapsed time, the quotient and the sum are 32-bit unsigned.
\<close>

definition sustain_mod32 :: "u32 \<Rightarrow> u32 \<Rightarrow> int \<Rightarrow> int \<Rightarrow> u32" where
  "sustain_mod32 start endv t len = start + (endv - start) * word_of_int t div word_of_int len"

text \<open>
  ``Equals, within rounding, \<^verbatim>\<open>attack_level * 0.5\<close>'': the value is at most one away from
  half the level.
\<close>

definition half_within_rounding :: "u16 \<Rightarrow> u32 \<Rightarrow> bool" where
  "half_within_rounding level v \<longleftrightarrow> \<bar>2 * uint v - uint level\<bar> \<le> 2"

section \<open>Concrete effects and events\<close>

text \<open>A rumble effect of one second: strong 200, weak 100.\<close>

definition rumble_desc :: ff_effect where
  "rumble_desc = \<lparr>ff_id = 0, replay_length = 1000, replay_delay = 0, u = FF_RUMBLE 200 100\<rparr>"

text \<open>A ramp from 0 to 1000 over one second, without envelope.\<close>

definition ramp_desc :: ff_effect where
  "ramp_desc = \<lparr>ff_id = 1, replay_length = 1000, replay_delay = 0,
                 u = FF_RAMP 0 1000 no_envelope\<rparr>"

text \<open>A ramp from 1000 down to 0, and a ramp from 0 to the level \<open>-1\<close>, over one second.\<close>

definition ramp_down_desc :: ff_effect where
  "ramp_down_desc = \<lparr>ff_id = 5, replay_length = 1000, replay_delay = 0,
                      u = FF_RAMP 1000 0 no_envelope\<rparr>"

definition ramp_neg_desc :: ff_effect where
  "ramp_neg_desc = \<lparr>ff_id = 6, replay_length = 1000, replay_delay = 0,
                     u = FF_RAMP 0 (- 1) no_envelope\<rparr>"

text \<open>A rumble effect of length zero.\<close>

definition zero_length_desc :: ff_effect where
  "zero_length_desc = \<lparr>ff_id = 2, replay_length = 0, replay_delay = 0, u = FF_RUMBLE 200 100\<rparr>"

text \<open>Constant effects with an attack window of 3 ms and of 4 ms, attack level 60000.\<close>

definition attack3_desc :: ff_effect where
  "attack3_desc = \<lparr>ff_id = 3, replay_length = 1000, replay_delay = 0,
     u = FF_CONSTANT 1000 \<lparr>attack_length = 3, attack_level = 60000,
                            fade_length = 0, fade_level = 0\<rparr>\<rparr>"

definition attack4_desc :: ff_effect where
  "attack4_desc = \<lparr>ff_id = 3, replay_length = 1000, replay_delay = 0,
     u = FF_CONSTANT 1000 \<lparr>attack_length = 4, attack_level = 60000,
                            fade_length = 0, fade_level = 0\<rparr>\<rparr>"

text \<open>A constant effect of level \<open>-1\<close> (\<open>0xFFFF\<close> as a \<^verbatim>\<open>__s16\<close>).\<close>

definition negative_desc :: ff_effect where
  "negative_desc = \<lparr>ff_id = 4, replay_length = 1000, replay_delay = 0,
                     u = FF_CONSTANT (- 1) no_envelope\<rparr>"

text \<open>
  Events as the kernel sends them: an upload request answered with the effect \<open>d\<close>, an
  erase request answered with the id \<open>i\<close>, a gain event, and a play (\<open>v \<noteq> 0\<close>) or stop
  (\<open>v = 0\<close>) event for the id \<open>code\<close>, handled when the clock reads \<open>clock\<close>.
\<close>

definition upload_event :: "ff_effect \<Rightarrow> fetched_event" where
  "upload_event d = \<lparr>ev_type = EV_UINPUT, ev_code = UI_FF_UPLOAD, ev_value = 0,
                      io_upload = d, io_erase = 0, io_clock = 0\<rparr>"

definition erase_event :: "u32 \<Rightarrow> fetched_event" where
  "erase_event i = \<lparr>ev_type = EV_UINPUT, ev_code = UI_FF_ERASE, ev_value = 0,
                     io_upload = rumble_desc, io_erase = i, io_clock = 0\<rparr>"

definition gain_event :: "s32 \<Rightarrow> fetched_event" where
  "gain_event v = \<lparr>ev_type = EV_FF, ev_code = FF_GAIN, ev_value = v,
                    io_upload = rumble_desc, io_erase = 0, io_clock = 0\<rparr>"

definition play_event :: "u16 \<Rightarrow> s32 \<Rightarrow> int \<Rightarrow> fetched_event" where
  "play_event code v clock = \<lparr>ev_type = EV_FF, ev_code = code, ev_value = v,
                               io_upload = rumble_desc, io_erase = 0, io_clock = clock\<rparr>"

lemmas simulate_defs =
  simulate_rumble_def phase_values_def envelope_mix_def rumble_magnitude_def apply_gain_def
  cdiv_def duration_cast_ms_def ms_to_ns_def clamp_def MAX_GAIN_def no_envelope_def
  create_rumble_effect_def

lemmas loop_defs =
  process_event_def remove_effects_def tick_def simulate_step_def initial_state_def

lemmas event_defs =
  upload_event_def erase_event_def gain_event_def play_event_def
  EV_UINPUT_def UI_FF_UPLOAD_def UI_FF_ERASE_def EV_FF_def EV_LED_def FF_GAIN_def

section \<open>Auxiliary facts\<close>

subsection \<open>Removal and the simulation loop\<close>

lemma remove_if_eq:
  "remove_if cb p xs calls =
     (filter (\<lambda>e. \<not> p e) xs, calls @ replicate (if cb then length (filter p xs) else 0) (0, 0))"
  by (induction xs arbitrary: calls) (auto simp: replicate_append_same)

lemma remove_effects_eq:
  "remove_effects cb p s =
     s\<lparr>active_effects := filter (\<lambda>e. \<not> p e) (active_effects s),
       rumble_calls := rumble_calls s @
         replicate (if cb then length (filter p (active_effects s)) else 0) (0, 0)\<rparr>"
  by (simp add: remove_effects_def remove_if_eq)

lemma simulate_all_append:
  "simulate_all cb now xs calls = map_option (\<lambda>c. calls @ c) (simulate_all cb now xs [])"
proof (induction xs arbitrary: calls)
  case Nil
  show ?case by simp
next
  case (Cons e xs)
  show ?case
  proof (cases "simulate_step cb now e calls")
    case None
    then show ?thesis
      by (auto simp: simulate_step_def split: option.splits prod.splits if_splits)
  next
    case (Some r)
    obtain c1 k1 where r: "r = (c1, k1)" by (cases r)
    from Some r obtain k0 where k0: "simulate_step cb now e [] = Some (c1, k0)" "k1 = calls @ k0"
      by (auto simp: simulate_step_def split: option.splits prod.splits if_splits)
    show ?thesis
      using Some r k0 Cons.IH [of k1] Cons.IH [of k0]
      by (simp add: option.map_comp comp_def)
  qed
qed


subsection \<open>Arithmetic and timing of a created instance\<close>

lemma cdiv_nonneg: "0 \<le> a \<Longrightarrow> 0 < b \<Longrightarrow> cdiv a b = Some (a div b)"
  by (cases "a = 0") (simp_all add: cdiv_def)

lemma cdiv_None: "cdiv a b = None \<longleftrightarrow> b = 0"
  by (simp add: cdiv_def)

lemma duration_cast_ms_nonneg: "0 \<le> ns \<Longrightarrow> duration_cast_ms ns = ns div 1000000"
  by (cases "ns = 0") (simp_all add: duration_cast_ms_def)

lemma created_effect_id [simp]: "effect_id (create_rumble_effect eid g eff c) = eid"
  by (simp add: create_rumble_effect_def Let_def split: ff_union.splits)

lemma created_gain [simp]: "gain (create_rumble_effect eid g eff c) = g"
  by (simp add: create_rumble_effect_def Let_def split: ff_union.splits)

lemma created_previous [simp]: "previous (create_rumble_effect eid g eff c) = (0, 0)"
  by (simp add: create_rumble_effect_def Let_def split: ff_union.splits)

lemma created_length:
  "length_ms (create_rumble_effect eid g eff c) = uint (clamp (replay_length eff) 0 32767)"
  by (simp add: create_rumble_effect_def Let_def split: ff_union.splits)

lemma created_start:
  "start_point (create_rumble_effect eid g eff c) =
     c + ms_to_ns (uint (clamp (replay_delay eff) 0 32767))"
  by (simp add: create_rumble_effect_def Let_def split: ff_union.splits)

lemma created_end:
  "end_point (create_rumble_effect eid g eff c) =
     start_point (create_rumble_effect eid g eff c) +
     ms_to_ns (length_ms (create_rumble_effect eid g eff c))"
  by (simp add: create_rumble_effect_def Let_def split: ff_union.splits)

lemma created_length_nonneg: "0 \<le> length_ms (create_rumble_effect eid g eff c)"
  by (simp add: created_length)

lemma clamp_u16_le: "uint (clamp (v :: 16 word) 0 32767) \<le> 32767"
  by (simp add: clamp_def word_less_def not_less)

lemma time_left_bounds:
  assumes "end_point e = start_point e + ms_to_ns (length_ms e)"
    and "start_point e \<le> now" and "now \<le> end_point e"
  shows "0 \<le> duration_cast_ms (end_point e - now)"
    and "duration_cast_ms (end_point e - now) \<le> length_ms e"
proof -
  let ?d = "end_point e - now"
  have d0: "0 \<le> ?d" using assms by simp
  have dL: "?d \<le> length_ms e * 1000000" using assms by (simp add: ms_to_ns_def)
  have eq: "duration_cast_ms ?d = ?d div 1000000" using d0 by (rule duration_cast_ms_nonneg)
  show "0 \<le> duration_cast_ms ?d" using d0 eq by simp
  have "?d div 1000000 \<le> (length_ms e * 1000000) div 1000000"
    using dL by (rule zdiv_mono1) simp
  then show "duration_cast_ms ?d \<le> length_ms e" using eq by simp
qed

lemma time_left_zero_iff:
  assumes "end_point e = start_point e + ms_to_ns (length_ms e)"
    and "start_point e \<le> now" and "now \<le> end_point e" and "length_ms e = 0"
  shows "now = start_point e" and "duration_cast_ms (end_point e - now) = 0"
  using assms by (simp_all add: ms_to_ns_def duration_cast_ms_def)

lemma envelope_mix_None: "envelope_mix level x cur len = None \<longleftrightarrow> len = 0"
  by (cases "cdiv (uint level * x + uint cur * (uint len - x)) (uint len)")
     (auto simp: envelope_mix_def cdiv_def uint_0_iff split: if_splits)

lemma rumble_magnitude_None: "rumble_magnitude t a b len = None \<longleftrightarrow> len = 0"
  by (cases "cdiv (uint (b - a) * t) len")
     (auto simp: rumble_magnitude_def cdiv_def Let_def split: if_splits)

lemma phase_values_None_iff:
  assumes "0 \<le> t" and "0 \<le> left"
  shows "phase_values e left t = None \<longleftrightarrow>
           \<not> t < uint (attack_length (envelope e)) \<and>
           \<not> left < uint (fade_length (envelope e)) \<and> length_ms e = 0"
proof -
  have a: "t < uint (attack_length (envelope e)) \<Longrightarrow> attack_length (envelope e) \<noteq> 0"
    using assms by auto
  have f: "left < uint (fade_length (envelope e)) \<Longrightarrow> fade_length (envelope e) \<noteq> 0"
    using assms by auto
  have opt: "\<And>(x :: u32 option) y. (case x of None \<Rightarrow> None
            | Some w \<Rightarrow> (case y of None \<Rightarrow> None | Some s \<Rightarrow> Some (w, s))) = None
          \<longleftrightarrow> x = None \<or> y = None"
    by (auto split: option.splits)
  show ?thesis
    using a f
    by (simp add: phase_values_def Let_def opt envelope_mix_None rumble_magnitude_None)
qed

lemma simulate_rumble_None_iff:
  assumes wf: "end_point e = start_point e + ms_to_ns (length_ms e)"
  shows "simulate_rumble e now = None \<longleftrightarrow>
           now = start_point e \<and> length_ms e = 0 \<and>
           attack_length (envelope e) = 0 \<and> fade_length (envelope e) = 0"
proof (cases "end_point e < now \<or> now < start_point e")
  case True
  then show ?thesis using wf by (auto simp: simulate_rumble_def ms_to_ns_def)
next
  case False
  then have r: "start_point e \<le> now" "now \<le> end_point e" by auto
  let ?tl = "duration_cast_ms (end_point e - now)"
  let ?t = "length_ms e - ?tl"
  have tb: "0 \<le> ?tl" "0 \<le> ?t" using time_left_bounds [OF wf r] by auto
  have sim: "simulate_rumble e now = None \<longleftrightarrow> phase_values e ?tl ?t = None"
    using False by (simp add: simulate_rumble_def Let_def split: option.splits)
  show ?thesis
  proof (cases "length_ms e = 0")
    case True
    have z: "now = start_point e" "?tl = 0" using time_left_zero_iff [OF wf r True] by auto
    show ?thesis
      unfolding sim phase_values_None_iff [OF tb(2) tb(1)]
      using True z by (auto simp: uint_0_iff not_less)
  next
    case False
    then show ?thesis unfolding sim phase_values_None_iff [OF tb(2) tb(1)] by simp
  qed
qed


lemma rumble_magnitude_nonneg:
  assumes "0 \<le> t" and "0 < len"
  shows "rumble_magnitude t a b len = Some (word_of_int (uint a + uint (b - a) * t div len))"
proof -
  have "0 \<le> uint (b - a) * t" using assms by simp
  then have "cdiv (uint (b - a) * t) len = Some (uint (b - a) * t div len)"
    using assms(2) by (simp add: cdiv_nonneg)
  then show ?thesis by (simp add: rumble_magnitude_def Let_def)
qed

lemma apply_gain_zero: "apply_gain v 0 = 0"
  by (simp add: apply_gain_def)

lemma apply_gain_max:
  assumes "uint v \<le> 65535"
  shows "apply_gain v 65535 = v"
proof -
  have lt: "uint v * 65535 < 2 ^ 32"
  proof -
    have "uint v * 65535 \<le> 65535 * 65535" using assms by simp
    then show ?thesis by simp
  qed
  have "uint (v * 65535) = uint v * 65535 mod 2 ^ 32"
    by (simp add: uint_word_ariths)
  also have "\<dots> = uint v * 65535" using lt by simp
  finally have m: "uint (v * 65535) = uint v * 65535" .
  have "uint (v * 65535 div 65535) = uint (v * 65535) div uint (65535 :: u32)"
    by (rule uint_div)
  also have "\<dots> = uint v" using m by simp
  finally have "uint (v * 65535 div 65535) = uint v" .
  then have "v * 65535 div 65535 = v" by (rule word_uint_eqI)
  then show ?thesis by (simp add: apply_gain_def MAX_GAIN_def)
qed

lemma uint_apply_gain:
  "uint (apply_gain m g) = (uint m * (g mod 2 ^ 32)) mod 2 ^ 32 div 65535"
proof -
  have "uint (apply_gain m g) = uint (m * word_of_int g) div uint (65535 :: u32)"
    by (simp add: apply_gain_def MAX_GAIN_def uint_div)
  also have "uint (m * word_of_int g) = uint m * uint (word_of_int g :: u32) mod 2 ^ 32"
    by (simp add: uint_word_ariths)
  also have "uint (word_of_int g :: u32) = g mod 2 ^ 32"
    by (simp add: uint_word_of_int)
  finally show ?thesis by simp
qed

lemma simulate_rumble_in_range:
  assumes "start_point e \<le> now" and "now \<le> end_point e"
  shows "simulate_rumble e now =
     map_option (\<lambda>(w, s). (apply_gain w (gain e), apply_gain s (gain e)))
       (phase_values e (duration_cast_ms (end_point e - now))
          (length_ms e - duration_cast_ms (end_point e - now)))"
  using assms by (simp add: simulate_rumble_def Let_def not_less split: option.splits)


lemma even_half_quotient:
  fixes L A :: int
  assumes "0 < A" and "even A"
  shows "L * (A div 2) div A = L div 2"
proof -
  from assms(2) obtain k where k: "A = 2 * k" by (rule evenE)
  with assms(1) have k0: "0 < k" by simp
  have "L * (A div 2) div A = (L * k) div (2 * k)" using k by simp
  also have "\<dots> = L div 2" using k0 by simp
  finally show ?thesis .
qed

subsection \<open>Wrap-around of levels and the gain event\<close>

lemma uint_negative_level:
  fixes l :: "16 word"
  assumes "sint l < 0"
  shows "uint (word_of_int (sint l) :: 32 word) = 2 ^ 32 + sint l"
proof -
  have lo: "- (2 ^ 15) \<le> sint l" using sint_ge [of l] by simp
  have "uint (word_of_int (sint l) :: 32 word) = sint l mod 2 ^ 32"
    using uint_word_of_int [of "sint l", where ?'a = 32] by simp
  also have "\<dots> = (sint l + 2 ^ 32) mod 2 ^ 32" by (simp only: mod_add_self2)
  also have "\<dots> = sint l + 2 ^ 32"
  proof (rule mod_pos_pos_trivial)
    show "0 \<le> sint l + 2 ^ 32" using lo by simp
    show "sint l + 2 ^ 32 < 2 ^ 32" using assms by simp
  qed
  finally show ?thesis by simp
qed

lemma uint_rumble_magnitude:
  assumes "0 \<le> t" and "0 < len"
  shows "\<exists>m. rumble_magnitude t a b len = Some m \<and>
           uint m = (uint a + ((uint b - uint a) mod 2 ^ 32) * t div len) mod 2 ^ 32"
proof -
  have "uint (b - a) = (uint b - uint a) mod 2 ^ 32"
    by (simp add: uint_word_ariths)
  then show ?thesis
    using rumble_magnitude_nonneg [OF assms, of a b]
      uint_word_of_int [of "uint a + uint (b - a) * t div len", where ?'a = 32]
    by simp
qed

lemma clamp_int_bounds: "lo \<le> hi \<Longrightarrow> lo \<le> clamp (v :: int) lo hi \<and> clamp v lo hi \<le> hi"
  by (simp add: clamp_def)

lemma tick_ignores_current_gain:
  "tick on_rumble (s\<lparr>current_gain := g'\<rparr>) [] now =
     map_option (\<lambda>r. r\<lparr>current_gain := g'\<rparr>) (tick on_rumble s [] now)"
  by (simp add: tick_def remove_effects_eq Let_def split: option.splits)

subsection \<open>The sustain value as an unsigned number\<close>

lemma uint_word_of_int_32: "uint (word_of_int k :: u32) = k mod 2 ^ 32"
  using uint_word_of_int [of k, where ?'a = 32] by simp

lemma uint_sustain_value:
  "uint (word_of_int (uint a + uint (b - a) * t div len) :: u32) =
     (uint a + ((uint b - uint a) mod 2 ^ 32) * t div len) mod 2 ^ 32"
  for a b :: u32
proof -
  have "uint (b - a) = (uint b - uint a) mod 2 ^ 32"
    by (simp add: uint_word_ariths)
  then show ?thesis
    using uint_word_of_int_32 [of "uint a + uint (b - a) * t div len"] by simp
qed

lemma scaled_quotient_bounds:
  fixes d t len :: int
  assumes "0 \<le> d" and "0 \<le> t" and "t \<le> len" and "0 < len"
  shows "0 \<le> d * t div len" and "d * t div len \<le> d"
proof -
  have "0 \<le> d * t" using assms by simp
  then show "0 \<le> d * t div len" using assms(4) by (simp add: pos_imp_zdiv_nonneg_iff)
  have "d * t \<le> d * len" using assms by (simp add: mult_left_mono)
  then have "d * t div len \<le> d * len div len" using assms(4) by (rule zdiv_mono1)
  then show "d * t div len \<le> d" using assms(4) by simp
qed

lemma uint_sustain_value_ascending:
  fixes a b :: u32
  assumes ab: "uint a \<le> uint b" and t: "0 \<le> t" "t \<le> len" "0 < len"
  shows "uint (word_of_int (uint a + uint (b - a) * t div len) :: u32) =
           uint a + (uint b - uint a) * t div len"
    and "uint a \<le> uint a + (uint b - uint a) * t div len"
    and "uint a + (uint b - uint a) * t div len \<le> uint b"
proof -
  let ?d = "uint b - uint a"
  have d0: "0 \<le> ?d" using ab by simp
  have sub: "uint (b - a) = ?d" using ab uint_sub_lem [of a b] by simp
  note q = scaled_quotient_bounds [OF d0 t]
  show lo: "uint a \<le> uint a + ?d * t div len" using q(1) by simp
  show hi: "uint a + ?d * t div len \<le> uint b" using q(2) by simp
  have "0 \<le> uint a + ?d * t div len" using lo uint_ge_0 [of a] by linarith
  moreover have "uint a + ?d * t div len < 2 ^ 32"
    using hi uint_bounded [of b] by simp
  ultimately have "(uint a + ?d * t div len) mod 2 ^ 32 = uint a + ?d * t div len"
    by (rule mod_pos_pos_trivial)
  then show "uint (word_of_int (uint a + uint (b - a) * t div len) :: u32) =
           uint a + ?d * t div len"
    using uint_word_of_int_32 [of "uint a + uint (b - a) * t div len"] sub by simp
qed

lemma sustain_phase_result:
  assumes wf: "end_point e = start_point e + ms_to_ns (length_ms e)"
    and r: "start_point e \<le> now" "now \<le> end_point e"
    and tl: "time_left = duration_cast_ms (end_point e - now)"
    and t: "t = length_ms e - time_left"
    and na: "\<not> t < uint (attack_length (envelope e))"
    and nf: "\<not> time_left < uint (fade_length (envelope e))"
    and len: "0 < length_ms e"
    and w: "w = word_of_int (uint (weak (start_mag e)) +
                   uint (weak (end_mag e) - weak (start_mag e)) * t div length_ms e)"
    and s: "s = word_of_int (uint (strong (start_mag e)) +
                   uint (strong (end_mag e) - strong (start_mag e)) * t div length_ms e)"
  shows "phase_values e time_left t = Some (w, s)"
    and "simulate_rumble e now = Some (apply_gain w (gain e), apply_gain s (gain e))"
    and "0 \<le> t" and "t \<le> length_ms e"
proof -
  show t0: "0 \<le> t" and "t \<le> length_ms e"
    using time_left_bounds [OF wf r] tl t by simp_all
  show pv: "phase_values e time_left t = Some (w, s)"
    using na nf unfolding w s
    by (simp add: phase_values_def Let_def rumble_magnitude_nonneg [OF t0 len])
  show "simulate_rumble e now = Some (apply_gain w (gain e), apply_gain s (gain e))"
    using pv simulate_rumble_in_range [OF r] tl t by simp
qed

lemma created_levels:
  assumes "u eff = FF_CONSTANT l env \<and> l' = l \<or> u eff = FF_PERIODIC l env \<and> l' = l \<or>
           u eff = FF_RAMP l l' env"
  shows "start_mag (create_rumble_effect eid g eff c) =
           \<lparr>weak = word_of_int (sint l), strong = word_of_int (sint l)\<rparr>"
    and "end_mag (create_rumble_effect eid g eff c) =
           \<lparr>weak = word_of_int (sint l'), strong = word_of_int (sint l')\<rparr>"
  using assms by (auto simp: create_rumble_effect_def Let_def)

lemma uint_level:
  fixes l :: "16 word"
  shows "uint (word_of_int (sint l) :: u32) = sint l mod 2 ^ 32"
  by (rule uint_word_of_int_32)

lemma negative_level_mod:
  fixes l :: "16 word"
  assumes "sint l < 0"
  shows "sint l mod 2 ^ 32 = 2 ^ 32 + sint l"
  using uint_negative_level [OF assms] uint_level [of l] by simp

subsection \<open>The loop never divides by zero\<close>

lemma well_timed_created: "well_timed (create_rumble_effect eid g eff c)"
  unfolding well_timed_def by (rule created_end)

lemma process_event_well_timed:
  assumes "list_all well_timed (active_effects s)"
  shows "list_all well_timed (active_effects (process_event on_rumble s ev))"
  using assms
  by (auto simp: process_event_def remove_effects_eq Let_def list_all_iff well_timed_created
      split: option.splits)

lemma foldl_process_event_well_timed:
  "list_all well_timed (active_effects s) \<Longrightarrow>
   list_all well_timed (active_effects (foldl (process_event on_rumble) s events))"
  by (induction events arbitrary: s) (simp_all add: process_event_well_timed)

lemma simulate_rumble_before_end:
  assumes "well_timed e" and "now < end_point e"
  shows "\<exists>r. simulate_rumble e now = Some r"
proof -
  have "simulate_rumble e now \<noteq> None"
    using assms simulate_rumble_None_iff [of e now]
    by (auto simp: well_timed_def ms_to_ns_def)
  then show ?thesis by auto
qed

lemma simulate_all_total:
  assumes "list_all (\<lambda>e. well_timed e \<and> now < end_point e) xs"
  shows "\<exists>calls'. simulate_all on_rumble now xs calls = Some calls'"
  using assms
proof (induction xs arbitrary: calls)
  case Nil
  show ?case by simp
next
  case (Cons e xs)
  then obtain r where r: "simulate_rumble e now = Some r"
    using simulate_rumble_before_end [of e now] by auto
  obtain w s where ws: "r = (w, s)" by (cases r)
  have "\<exists>copy calls1. simulate_step on_rumble now e calls = Some (copy, calls1)"
    using r ws by (simp add: simulate_step_def)
  then obtain copy calls1 where "simulate_step on_rumble now e calls = Some (copy, calls1)"
    by blast
  then show ?case using Cons by simp
qed

lemma tick_total:
  assumes "list_all well_timed (active_effects s)"
  shows "\<exists>s'. tick on_rumble s events now = Some s' \<and> list_all well_timed (active_effects s')"
proof -
  let ?s1 = "foldl (process_event on_rumble) s events"
  let ?s2 = "remove_effects on_rumble (\<lambda>effect. end_point effect \<le> now) ?s1"
  have w1: "list_all well_timed (active_effects ?s1)"
    using assms by (rule foldl_process_event_well_timed)
  then have w2: "list_all (\<lambda>e. well_timed e \<and> now < end_point e) (active_effects ?s2)"
    by (auto simp: remove_effects_eq list_all_iff)
  then obtain calls where
    "simulate_all on_rumble now (active_effects ?s2) (rumble_calls ?s2) = Some calls"
    using simulate_all_total by blast
  then have "tick on_rumble s events now = Some (?s2\<lparr>rumble_calls := calls\<rparr>)"
    by (simp add: tick_def Let_def)
  moreover have "list_all well_timed (active_effects (?s2\<lparr>rumble_calls := calls\<rparr>))"
    using w2 by (simp add: list_all_iff)
  ultimately show ?thesis by blast
qed

lemma run_total:
  "list_all well_timed (active_effects s) \<Longrightarrow> \<exists>s'. run on_rumble s ticks = Some s'"
proof (induction ticks arbitrary: s)
  case Nil
  show ?case by simp
next
  case (Cons tk ticks)
  obtain events now where tk: "tk = (events, now)" by (cases tk)
  from tick_total [OF Cons.prems, of on_rumble events now] obtain s1 where
    "tick on_rumble s events now = Some s1" "list_all well_timed (active_effects s1)" by blast
  then show ?case using Cons.IH [of s1] tk by simp
qed

lemma run_initial_total: "\<exists>s'. run on_rumble initial_state ticks = Some s'"
  by (rule run_total) (simp add: initial_state_def)

section \<open>Claims\<close>

text \<open>
  C1. The simulation loop iterates over copies of the instances
  (\<^verbatim>\<open>for (auto effect : active_effects)\<close>), so the assignment to \<^verbatim>\<open>effect.previous\<close> never
  reaches the stored instance: its last-reported pair stays \<open>(0, 0)\<close>, and a value that does
  not change between two ticks is reported at both. Here a rumble effect (strong 200, weak
  100) is uploaded and played at clock 0; the ticks at 20 ms and 40 ms both simulate
  \<open>(weak, strong) = (100, 200)\<close>, the callback is called with \<open>(200, 100)\<close> at both, and the
  stored pair is \<open>(0, 0)\<close> afterwards.
\<close>

theorem unchanged_value_reported_again:
  "simulate_rumble (create_rumble_effect 0 65535 rumble_desc 0) 20000000 = Some (100, 200)
   \<and> simulate_rumble (create_rumble_effect 0 65535 rumble_desc 0) 40000000 = Some (100, 200)
   \<and> map_option (\<lambda>s. (map previous (active_effects s), rumble_calls s))
        (run True initial_state
           [([upload_event rumble_desc, play_event 0 1 0], 20000000), ([], 40000000)])
       = Some ([(0, 0)], [(200, 100), (200, 100)])"
  by (simp add: loop_defs event_defs rumble_desc_def simulate_defs)

text \<open>
  C2. The erase branch removes the active instances of the erased id and nothing else:
  \<^verbatim>\<open>ff_effects\<close> is not touched. After the upload of an effect with id 0 and the erase of
  id 0 the map still holds the effect, and a later play event for id 0 activates it.
\<close>

theorem erase_keeps_descriptor:
  "ff_effects (foldl (process_event True) initial_state
       [upload_event rumble_desc, erase_event 0]) 0 = Some rumble_desc
   \<and> active_effects (foldl (process_event True) initial_state
       [upload_event rumble_desc, erase_event 0, play_event 0 1 0])
       = [create_rumble_effect 0 65535 rumble_desc 0]"
  by (simp add: loop_defs event_defs rumble_desc_def MAX_GAIN_def)

text \<open>
  C3, as amended. In the sustain phase of an instance built by \<open>create_rumble_effect\<close>
  (\<open>now\<close> within \<open>[start_point, end_point]\<close>, neither the attack nor the fade condition
  holds) and with \<open>length > 0\<close>, the value of each channel before the gain is
  \<open>start + (end - start) * t / length\<close> as the code computes it: \<open>t = length - time_left\<close> is
  the elapsed time (\<open>simulate_rumble\<close> passes \<open>t\<close>, not \<open>time_left\<close>, to
  \<open>rumble_magnitude\<close>), the difference \<open>end - start\<close> is taken modulo \<open>2^32\<close>, the product
  and the quotient are exact, and the sum is reduced modulo \<open>2^32\<close>. The result of the
  simulation is this value with the gain applied. When the end magnitude is not below the
  start magnitude nothing wraps: the value is \<open>start + (end - start) * t / length\<close> in the
  integers and lies between the start and the end magnitude. When the end magnitude is
  below the start magnitude the difference wraps.
\<close>

theorem sustain_interpolates_elapsed:
  assumes e: "e = create_rumble_effect eid g eff c"
    and r: "start_point e \<le> now" "now \<le> end_point e"
    and tl: "time_left = duration_cast_ms (end_point e - now)"
    and t: "t = length_ms e - time_left"
    and na: "\<not> t < uint (attack_length (envelope e))"
    and nf: "\<not> time_left < uint (fade_length (envelope e))"
    and len: "0 < length_ms e"
    and w: "w = word_of_int (uint (weak (start_mag e)) +
                   uint (weak (end_mag e) - weak (start_mag e)) * t div length_ms e)"
    and s: "s = word_of_int (uint (strong (start_mag e)) +
                   uint (strong (end_mag e) - strong (start_mag e)) * t div length_ms e)"
  shows "phase_values e time_left t = Some (w, s)
       \<and> simulate_rumble e now = Some (apply_gain w g, apply_gain s g)
       \<and> uint w = (uint (weak (start_mag e)) +
                    ((uint (weak (end_mag e)) - uint (weak (start_mag e))) mod 2 ^ 32) * t
                      div length_ms e) mod 2 ^ 32
       \<and> uint s = (uint (strong (start_mag e)) +
                    ((uint (strong (end_mag e)) - uint (strong (start_mag e))) mod 2 ^ 32) * t
                      div length_ms e) mod 2 ^ 32
       \<and> (uint (weak (start_mag e)) \<le> uint (weak (end_mag e)) \<longrightarrow>
            uint w = uint (weak (start_mag e)) +
                     (uint (weak (end_mag e)) - uint (weak (start_mag e))) * t div length_ms e \<and>
            uint (weak (start_mag e)) \<le> uint w \<and> uint w \<le> uint (weak (end_mag e)))
       \<and> (uint (strong (start_mag e)) \<le> uint (strong (end_mag e)) \<longrightarrow>
            uint s = uint (strong (start_mag e)) +
                     (uint (strong (end_mag e)) - uint (strong (start_mag e))) * t div length_ms e \<and>
            uint (strong (start_mag e)) \<le> uint s \<and> uint s \<le> uint (strong (end_mag e)))"
proof -
  have wf: "end_point e = start_point e + ms_to_ns (length_ms e)"
    unfolding e by (rule created_end)
  note res = sustain_phase_result [OF wf r tl t na nf len w s]
  note pv = res(1) and t0 = res(3) and tL = res(4)
  have g: "gain e = g" unfolding e by simp
  have sim: "simulate_rumble e now = Some (apply_gain w g, apply_gain s g)"
    using res(2) g by simp
  have uw: "uint w = (uint (weak (start_mag e)) +
                    ((uint (weak (end_mag e)) - uint (weak (start_mag e))) mod 2 ^ 32) * t
                      div length_ms e) mod 2 ^ 32"
    unfolding w by (rule uint_sustain_value)
  have us: "uint s = (uint (strong (start_mag e)) +
                    ((uint (strong (end_mag e)) - uint (strong (start_mag e))) mod 2 ^ 32) * t
                      div length_ms e) mod 2 ^ 32"
    unfolding s by (rule uint_sustain_value)
  have aw: "uint (weak (start_mag e)) \<le> uint (weak (end_mag e)) \<longrightarrow>
            uint w = uint (weak (start_mag e)) +
                     (uint (weak (end_mag e)) - uint (weak (start_mag e))) * t div length_ms e \<and>
            uint (weak (start_mag e)) \<le> uint w \<and> uint w \<le> uint (weak (end_mag e))"
    unfolding w using uint_sustain_value_ascending [OF _ t0 tL len] by simp
  have as: "uint (strong (start_mag e)) \<le> uint (strong (end_mag e)) \<longrightarrow>
            uint s = uint (strong (start_mag e)) +
                     (uint (strong (end_mag e)) - uint (strong (start_mag e))) * t div length_ms e \<and>
            uint (strong (start_mag e)) \<le> uint s \<and> uint s \<le> uint (strong (end_mag e))"
    unfolding s using uint_sustain_value_ascending [OF _ t0 tL len] by simp
  show ?thesis by (intro conjI) (rule pv sim uw us aw as)+
qed

text \<open>
  The ramp from 0 to 1000 gives 250 for both channels 250 ms after its start. The ramp
  from 1000 down to 0 gives 1073742574 before the gain at the same time, and 49902 after
  the gain 65535.
\<close>

theorem sustain_interpolates_elapsed_witness:
  "simulate_rumble (create_rumble_effect 1 65535 ramp_desc 0) 250000000 = Some (250, 250)
   \<and> phase_values (create_rumble_effect 5 65535 ramp_down_desc 0) 750 250 =
         Some (1073742574, 1073742574)
   \<and> simulate_rumble (create_rumble_effect 5 65535 ramp_down_desc 0) 250000000 =
         Some (49902, 49902)"
proof -
  let ?e = "create_rumble_effect 1 65535 ramp_desc 0"
  let ?d = "create_rumble_effect 5 65535 ramp_down_desc 0"
  have r: "start_point ?e \<le> 250000000" "250000000 \<le> end_point ?e"
    and tl: "750 = duration_cast_ms (end_point ?e - 250000000)"
    and t: "250 = length_ms ?e - 750"
    and na: "\<not> 250 < uint (attack_length (envelope ?e))"
    and nf: "\<not> 750 < uint (fade_length (envelope ?e))"
    and len: "0 < length_ms ?e"
    by (simp_all add: simulate_defs ramp_desc_def)
  have v: "start_mag ?e = \<lparr>weak = 0, strong = 0\<rparr>" "end_mag ?e = \<lparr>weak = 1000, strong = 1000\<rparr>"
    "length_ms ?e = 1000"
    by (simp_all add: simulate_defs ramp_desc_def)
  have g: "apply_gain 250 65535 = 250"
    by (simp add: apply_gain_def MAX_GAIN_def)
  have up: "simulate_rumble ?e 250000000 = Some (250, 250)"
    using sustain_interpolates_elapsed [OF refl r tl t na nf len refl refl,
        THEN conjunct2, THEN conjunct1]
    unfolding v by (simp add: g)
  have r': "start_point ?d \<le> 250000000" "250000000 \<le> end_point ?d"
    and tl': "750 = duration_cast_ms (end_point ?d - 250000000)"
    and t': "250 = length_ms ?d - 750"
    and na': "\<not> 250 < uint (attack_length (envelope ?d))"
    and nf': "\<not> 750 < uint (fade_length (envelope ?d))"
    and len': "0 < length_ms ?d"
    by (simp_all add: simulate_defs ramp_down_desc_def)
  have v': "start_mag ?d = \<lparr>weak = 1000, strong = 1000\<rparr>" "end_mag ?d = \<lparr>weak = 0, strong = 0\<rparr>"
    "length_ms ?d = 1000"
    by (simp_all add: simulate_defs ramp_down_desc_def)
  have g': "apply_gain 1073742574 65535 = 49902"
    by (simp add: apply_gain_def MAX_GAIN_def)
  note down = sustain_interpolates_elapsed [OF refl r' tl' t' na' nf' len' refl refl]
  have pv: "phase_values ?d 750 250 = Some (1073742574, 1073742574)"
    using down [THEN conjunct1] unfolding v' by simp
  have sim: "simulate_rumble ?d 250000000 = Some (49902, 49902)"
    using down [THEN conjunct2, THEN conjunct1] unfolding v' by (simp add: g')
  show ?thesis using up pv sim by simp
qed

text \<open>
  The claim as stated fails on the ramp from 0 to 1000 over one second, 250 ms after its
  start: 750 ms are left, the sustain branch is taken, the code computes 250 for both
  channels, and the formula in \<open>time_left\<close> gives 750.
\<close>

theorem sustain_time_left_counterexample:
  "start_point (create_rumble_effect 1 65535 ramp_desc 0) \<le> 250000000
   \<and> 250000000 \<le> end_point (create_rumble_effect 1 65535 ramp_desc 0)
   \<and> length_ms (create_rumble_effect 1 65535 ramp_desc 0) = 1000
   \<and> duration_cast_ms (end_point (create_rumble_effect 1 65535 ramp_desc 0) - 250000000) = 750
   \<and> attack_length (envelope (create_rumble_effect 1 65535 ramp_desc 0)) = 0
   \<and> fade_length (envelope (create_rumble_effect 1 65535 ramp_desc 0)) = 0
   \<and> phase_values (create_rumble_effect 1 65535 ramp_desc 0) 750 (1000 - 750) = Some (250, 250)
   \<and> sustain_by_time_left (weak (start_mag (create_rumble_effect 1 65535 ramp_desc 0)))
        (weak (end_mag (create_rumble_effect 1 65535 ramp_desc 0))) 750 1000 = 750
   \<and> simulate_rumble (create_rumble_effect 1 65535 ramp_desc 0) 250000000 = Some (250, 250)"
  by (simp add: simulate_defs ramp_desc_def sustain_by_time_left_def)

text \<open>
  C4, as amended. For an instance built by \<open>create_rumble_effect\<close> and any \<open>now\<close>: inside
  \<open>[start_point, end_point]\<close> the attack condition is false when \<open>attack_length = 0\<close> and
  the fade condition is false when \<open>fade_length = 0\<close>, so neither branch divides by zero.
  The sustain division has no guard: the simulation divides by zero exactly when the
  instance has length 0, no attack and no fade window, and \<open>now\<close> is its start (and end)
  point; at every other time it returns a pair, in particular at every \<open>now\<close> before the
  end point. The loop removes the instances whose end point is not after \<open>now\<close> before it
  simulates, so every run of the loop from the initial state, whatever the events and
  clock readings, completes without a division by zero.
\<close>

theorem simulate_rumble_division:
  assumes "e = create_rumble_effect eid g eff c"
  shows "(start_point e \<le> now \<and> now \<le> end_point e \<and> attack_length (envelope e) = 0 \<longrightarrow>
            \<not> length_ms e - duration_cast_ms (end_point e - now) < uint (attack_length (envelope e)))
       \<and> (start_point e \<le> now \<and> now \<le> end_point e \<and> fade_length (envelope e) = 0 \<longrightarrow>
            \<not> duration_cast_ms (end_point e - now) < uint (fade_length (envelope e)))
       \<and> (simulate_rumble e now = None \<longleftrightarrow>
            now = start_point e \<and> length_ms e = 0 \<and>
            attack_length (envelope e) = 0 \<and> fade_length (envelope e) = 0)
       \<and> (\<not> end_point e \<le> now \<longrightarrow> (\<exists>r. simulate_rumble e now = Some r))
       \<and> (\<exists>s'. run on_rumble initial_state ticks = Some s')"
proof -
  have wf: "end_point e = start_point e + ms_to_ns (length_ms e)"
    unfolding assms by (rule created_end)
  have wt: "well_timed e" unfolding assms by (rule well_timed_created)
  have 1: "(start_point e \<le> now \<and> now \<le> end_point e \<and> attack_length (envelope e) = 0 \<longrightarrow>
            \<not> length_ms e - duration_cast_ms (end_point e - now) < uint (attack_length (envelope e)))
       \<and> (start_point e \<le> now \<and> now \<le> end_point e \<and> fade_length (envelope e) = 0 \<longrightarrow>
            \<not> duration_cast_ms (end_point e - now) < uint (fade_length (envelope e)))
       \<and> (simulate_rumble e now = None \<longleftrightarrow>
            now = start_point e \<and> length_ms e = 0 \<and>
            attack_length (envelope e) = 0 \<and> fade_length (envelope e) = 0)"
    using time_left_bounds [OF wf, of now] simulate_rumble_None_iff [OF wf, of now]
    by auto
  have 2: "\<not> end_point e \<le> now \<longrightarrow> (\<exists>r. simulate_rumble e now = Some r)"
    using simulate_rumble_before_end [OF wt, of now] by simp
  have 3: "\<exists>s'. run on_rumble initial_state ticks = Some s'"
    by (rule run_initial_total)
  note att = 1 [THEN conjunct1] and fad = 1 [THEN conjunct2, THEN conjunct1]
    and sus = 1 [THEN conjunct2, THEN conjunct2]
  show ?thesis by (intro conjI) (rule att fad sus 2 3)+
qed

theorem simulate_rumble_division_witness:
  "simulate_rumble (create_rumble_effect 2 65535 zero_length_desc 0) 0 = None
   \<and> simulate_rumble (create_rumble_effect 0 65535 rumble_desc 0) 20000000 \<noteq> None
   \<and> attack_length (envelope (create_rumble_effect 0 65535 rumble_desc 0)) = 0
   \<and> \<not> length_ms (create_rumble_effect 0 65535 rumble_desc 0) -
          duration_cast_ms (end_point (create_rumble_effect 0 65535 rumble_desc 0) - 20000000)
        < uint (attack_length (envelope (create_rumble_effect 0 65535 rumble_desc 0)))"
proof -
  let ?z = "create_rumble_effect 2 65535 zero_length_desc 0"
  let ?e = "create_rumble_effect 0 65535 rumble_desc 0"
  note dz = simulate_rumble_division [of ?z 2 65535 zero_length_desc 0 0, OF refl]
  note de = simulate_rumble_division [of ?e 0 65535 rumble_desc 0 20000000, OF refl]
  have z: "0 = start_point ?z \<and> length_ms ?z = 0 \<and>
           attack_length (envelope ?z) = 0 \<and> fade_length (envelope ?z) = 0"
    by (simp add: simulate_defs zero_length_desc_def)
  have none: "simulate_rumble ?z 0 = None"
    using dz [THEN conjunct2, THEN conjunct2, THEN conjunct1] z by (rule iffD2)
  have e: "20000000 \<noteq> start_point ?e"
    by (simp add: simulate_defs rumble_desc_def)
  have some: "simulate_rumble ?e 20000000 \<noteq> None"
    using de [THEN conjunct2, THEN conjunct2, THEN conjunct1] e by blast
  have a: "start_point ?e \<le> 20000000 \<and> 20000000 \<le> end_point ?e \<and>
           attack_length (envelope ?e) = 0"
    by (simp add: simulate_defs rumble_desc_def)
  have skip: "\<not> length_ms ?e - duration_cast_ms (end_point ?e - 20000000)
               < uint (attack_length (envelope ?e))"
    using de [THEN conjunct1] a by (rule mp)
  show ?thesis using none some a skip by blast
qed

text \<open>
  The claim as stated fails on a rumble effect of replay length 0 activated at clock 0
  and simulated at \<open>now = 0\<close>: the sustain branch divides by the length 0.
\<close>

theorem zero_length_division_counterexample:
  "simulate_rumble (create_rumble_effect 2 65535 zero_length_desc 0) 0 = None"
  by (simp add: simulate_defs zero_length_desc_def)

text \<open>
  C5. \<open>remove_effects\<close> keeps the instances that the filter rejects and appends one call
  \<open>(0, 0)\<close> for each instance it removes when the callback is present, none otherwise.
  A stop event is this removal for the instances of the event's id, an erase request for
  the instances of the erased id, and the sweep of a tick for the instances whose end
  point is not after \<open>now\<close>; the calls of the sweep come after those of the events and
  before those of the simulation.
\<close>

theorem removal_fires_once:
  "remove_effects on_rumble filter_fn s =
     s\<lparr>active_effects := filter (\<lambda>e. \<not> filter_fn e) (active_effects s),
       rumble_calls := rumble_calls s @
         replicate (if on_rumble then length (filter filter_fn (active_effects s)) else 0) (0, 0)\<rparr>
   \<and> (ev_type ev = EV_FF \<and> ev_code ev \<noteq> FF_GAIN \<and> ev_value ev = 0 \<longrightarrow>
        process_event on_rumble s ev =
          remove_effects on_rumble (\<lambda>e. effect_id e = uint (ev_code ev)) s)
   \<and> (ev_type ev = EV_UINPUT \<and> ev_code ev = UI_FF_ERASE \<longrightarrow>
        process_event on_rumble s ev =
          remove_effects on_rumble (\<lambda>e. word_of_int (effect_id e) = io_erase ev) s)
   \<and> (s1 = foldl (process_event on_rumble) s events \<and> tick on_rumble s events now = Some s' \<longrightarrow>
        active_effects s' = filter (\<lambda>e. \<not> end_point e \<le> now) (active_effects s1) \<and>
        (\<exists>reported. simulate_all on_rumble now (active_effects s') [] = Some reported \<and>
           rumble_calls s' = rumble_calls s1 @
             replicate (if on_rumble
                        then length (filter (\<lambda>e. end_point e \<le> now) (active_effects s1))
                        else 0) (0, 0)
             @ reported))"
proof (intro conjI impI)
  show "remove_effects on_rumble filter_fn s =
     s\<lparr>active_effects := filter (\<lambda>e. \<not> filter_fn e) (active_effects s),
       rumble_calls := rumble_calls s @
         replicate (if on_rumble then length (filter filter_fn (active_effects s)) else 0) (0, 0)\<rparr>"
    by (rule remove_effects_eq)
next
  assume "ev_type ev = EV_FF \<and> ev_code ev \<noteq> FF_GAIN \<and> ev_value ev = 0"
  then show "process_event on_rumble s ev =
          remove_effects on_rumble (\<lambda>e. effect_id e = uint (ev_code ev)) s"
    by (simp add: process_event_def EV_FF_def EV_UINPUT_def)
next
  assume "ev_type ev = EV_UINPUT \<and> ev_code ev = UI_FF_ERASE"
  then show "process_event on_rumble s ev =
          remove_effects on_rumble (\<lambda>e. word_of_int (effect_id e) = io_erase ev) s"
    by (simp add: process_event_def UI_FF_ERASE_def UI_FF_UPLOAD_def)
next
  assume a: "s1 = foldl (process_event on_rumble) s events \<and> tick on_rumble s events now = Some s'"
  let ?s2 = "remove_effects on_rumble (\<lambda>e. end_point e \<le> now) s1"
  from a obtain calls where
    c: "simulate_all on_rumble now (active_effects ?s2) (rumble_calls ?s2) = Some calls"
    and s': "s' = ?s2\<lparr>rumble_calls := calls\<rparr>"
    by (auto simp: tick_def Let_def split: option.splits)
  show "active_effects s' = filter (\<lambda>e. \<not> end_point e \<le> now) (active_effects s1)"
    using s' by (simp add: remove_effects_eq)
  from c obtain reported where
    r: "simulate_all on_rumble now (active_effects ?s2) [] = Some reported"
    and k: "calls = rumble_calls ?s2 @ reported"
    using simulate_all_append [of on_rumble now "active_effects ?s2" "rumble_calls ?s2"]
    by (cases "simulate_all on_rumble now (active_effects ?s2) []") auto
  show "\<exists>reported. simulate_all on_rumble now (active_effects s') [] = Some reported \<and>
           rumble_calls s' = rumble_calls s1 @
             replicate (if on_rumble
                        then length (filter (\<lambda>e. end_point e \<le> now) (active_effects s1))
                        else 0) (0, 0)
             @ reported"
    using r k s' by (simp add: remove_effects_eq)
qed

text \<open>
  Two instances of id 0 are active when the stop event for id 0 arrives: both are removed
  and \<open>(0, 0)\<close> is called twice. An instance whose end point is reached at the tick is
  removed with one call \<open>(0, 0)\<close>, without any stop event.
\<close>

theorem removal_fires_once_witness:
  "active_effects (foldl (process_event True) initial_state
      [upload_event rumble_desc, play_event 0 1 0, play_event 0 1 5000000, play_event 0 0 0]) = []
   \<and> rumble_calls (foldl (process_event True) initial_state
      [upload_event rumble_desc, play_event 0 1 0, play_event 0 1 5000000, play_event 0 0 0])
       = [(0, 0), (0, 0)]
   \<and> map_option (\<lambda>s. (active_effects s, rumble_calls s))
        (tick True initial_state [upload_event rumble_desc, play_event 0 1 0] 1000000000)
       = Some ([], [(0, 0)])"
proof -
  let ?s = "foldl (process_event True) initial_state
      [upload_event rumble_desc, play_event 0 1 0, play_event 0 1 5000000]"
  let ?stop = "play_event 0 0 0"
  have stop: "ev_type ?stop = EV_FF \<and> ev_code ?stop \<noteq> FF_GAIN \<and> ev_value ?stop = 0"
    by (simp add: event_defs)
  note th = removal_fires_once [of True "\<lambda>e. effect_id e = uint (ev_code ?stop)" ?s ?stop]
  have 1: "process_event True ?s ?stop =
             remove_effects True (\<lambda>e. effect_id e = uint (ev_code ?stop)) ?s"
    using th [THEN conjunct2, THEN conjunct1] stop by (rule mp)
  have id0: "sint (ff_id rumble_desc) = 0" by (simp add: rumble_desc_def)
  have act: "active_effects ?s = [create_rumble_effect 0 65535 rumble_desc 0,
                                  create_rumble_effect 0 65535 rumble_desc 5000000]"
    and calls: "rumble_calls ?s = []"
    by (simp_all add: process_event_def initial_state_def event_defs id0 MAX_GAIN_def)
  have code: "uint (ev_code ?stop) = 0" by (simp add: event_defs)
  have a: "active_effects (process_event True ?s ?stop) = []"
    using 1 th [THEN conjunct1] act code by simp
  have c: "rumble_calls (process_event True ?s ?stop) = [(0, 0), (0, 0)]"
    using 1 th [THEN conjunct1] act calls code by (simp add: numeral_2_eq_2)
  have t: "map_option (\<lambda>s. (active_effects s, rumble_calls s))
        (tick True initial_state [upload_event rumble_desc, play_event 0 1 0] 1000000000)
       = Some ([], [(0, 0)])"
    by (simp add: loop_defs event_defs rumble_desc_def simulate_defs)
  show ?thesis using a c t by simp
qed

text \<open>
  C6. A gain event stores the event's value clamped to \<open>[0, 65535]\<close> as the current gain
  and changes nothing else, so the instances in the active set keep the gain they were
  built with. An instance activated afterwards is built with the new gain. A tick without
  events does not read the current gain: its sweep and its simulation give the same
  result whatever the current gain is.
\<close>

theorem set_gain_frame:
  assumes "ev_type ev = EV_FF" and "ev_code ev = FF_GAIN"
  shows "process_event on_rumble s ev =
           s\<lparr>current_gain := clamp (sint (ev_value ev)) 0 MAX_GAIN\<rparr>
       \<and> 0 \<le> current_gain (process_event on_rumble s ev)
       \<and> current_gain (process_event on_rumble s ev) \<le> 65535
       \<and> active_effects (process_event on_rumble s ev) = active_effects s
       \<and> (ev_type ev' = EV_FF \<and> ev_code ev' \<noteq> FF_GAIN \<and> ev_value ev' \<noteq> 0 \<and>
           ff_effects s (uint (ev_code ev')) = Some d \<longrightarrow>
             active_effects (process_event on_rumble (process_event on_rumble s ev) ev') =
               active_effects s @
                 [create_rumble_effect (uint (ev_code ev')) (clamp (sint (ev_value ev)) 0 MAX_GAIN)
                    d (io_clock ev')] \<and>
             gain (create_rumble_effect (uint (ev_code ev')) (clamp (sint (ev_value ev)) 0 MAX_GAIN)
                    d (io_clock ev')) = clamp (sint (ev_value ev)) 0 MAX_GAIN)
       \<and> tick on_rumble (s\<lparr>current_gain := g'\<rparr>) [] now =
           map_option (\<lambda>r. r\<lparr>current_gain := g'\<rparr>) (tick on_rumble s [] now)"
proof -
  have p: "process_event on_rumble s ev =
           s\<lparr>current_gain := clamp (sint (ev_value ev)) 0 MAX_GAIN\<rparr>"
    using assms by (simp add: process_event_def EV_FF_def EV_UINPUT_def)
  have b: "0 \<le> clamp (sint (ev_value ev)) 0 MAX_GAIN \<and>
           clamp (sint (ev_value ev)) 0 MAX_GAIN \<le> 65535"
    using clamp_int_bounds [of 0 MAX_GAIN "sint (ev_value ev)"] by (simp add: MAX_GAIN_def)
  have a: "ev_type ev' = EV_FF \<and> ev_code ev' \<noteq> FF_GAIN \<and> ev_value ev' \<noteq> 0 \<and>
           ff_effects s (uint (ev_code ev')) = Some d \<Longrightarrow>
             active_effects (process_event on_rumble (process_event on_rumble s ev) ev') =
               active_effects s @
                 [create_rumble_effect (uint (ev_code ev')) (clamp (sint (ev_value ev)) 0 MAX_GAIN)
                    d (io_clock ev')]"
    unfolding p by (simp add: process_event_def EV_FF_def EV_UINPUT_def Let_def)
  show ?thesis
    using p b a tick_ignores_current_gain [of on_rumble g' s now] by simp
qed

theorem set_gain_frame_witness:
  "map gain (active_effects (foldl (process_event True) initial_state
      [upload_event rumble_desc, play_event 0 1 0, gain_event 30000, play_event 0 1 0]))
     = [65535, 30000]
   \<and> current_gain (process_event True initial_state (gain_event 100000)) = 65535
   \<and> current_gain (process_event True initial_state (gain_event (- 5))) = 0"
proof -
  let ?s = "foldl (process_event True) initial_state [upload_event rumble_desc, play_event 0 1 0]"
  let ?play = "play_event 0 1 0"
  have ty: "ev_type (gain_event v) = EV_FF" and co: "ev_code (gain_event v) = FF_GAIN" for v
    by (simp_all add: event_defs)
  have id0: "sint (ff_id rumble_desc) = 0" by (simp add: rumble_desc_def)
  have s: "active_effects ?s = [create_rumble_effect 0 65535 rumble_desc 0]"
    and f: "ff_effects ?s (uint (ev_code ?play)) = Some rumble_desc"
    by (simp_all add: process_event_def initial_state_def event_defs id0 MAX_GAIN_def)
  have pl: "ev_type ?play = EV_FF \<and> ev_code ?play \<noteq> FF_GAIN \<and> ev_value ?play \<noteq> 0 \<and>
            ff_effects ?s (uint (ev_code ?play)) = Some rumble_desc"
    using f by (simp add: event_defs)
  note th = set_gain_frame [where ev = "gain_event 30000" and on_rumble = True and s = ?s
      and ev' = ?play and d = rumble_desc, OF ty co]
  have a: "active_effects (process_event True (process_event True ?s (gain_event 30000)) ?play) =
             active_effects ?s @
               [create_rumble_effect (uint (ev_code ?play))
                  (clamp (sint (ev_value (gain_event 30000))) 0 MAX_GAIN) rumble_desc (io_clock ?play)]"
    using th [THEN conjunct2, THEN conjunct2, THEN conjunct2, THEN conjunct2, THEN conjunct1] pl
    by blast
  have c: "clamp (sint (ev_value (gain_event 30000))) 0 MAX_GAIN = 30000"
    by (simp add: event_defs clamp_def MAX_GAIN_def)
  have 1: "map gain (active_effects (foldl (process_event True) initial_state
      [upload_event rumble_desc, play_event 0 1 0, gain_event 30000, play_event 0 1 0]))
     = [65535, 30000]"
    using a s c by simp
  have 2: "current_gain (process_event True initial_state (gain_event 100000)) = 65535"
    using set_gain_frame [where ev = "gain_event 100000" and on_rumble = True
        and s = initial_state, OF ty co, THEN conjunct1]
    by (simp add: event_defs clamp_def MAX_GAIN_def)
  have 3: "current_gain (process_event True initial_state (gain_event (- 5))) = 0"
    using set_gain_frame [where ev = "gain_event (- 5)" and on_rumble = True
        and s = initial_state, OF ty co, THEN conjunct1]
    by (simp add: event_defs clamp_def MAX_GAIN_def)
  show ?thesis using 1 2 3 by simp
qed

text \<open>
  C7, as amended. Inside \<open>[start_point, end_point]\<close> the result of the simulation is the
  pair of the phase computation with each channel multiplied by the gain and divided by
  65535, in 32-bit unsigned arithmetic. For an instance built by \<open>create_rumble_effect\<close> with
  gain 0 the result is \<open>(0, 0)\<close> at every \<open>now\<close> but one: when the instance has length 0
  and neither an attack nor a fade window, and \<open>now\<close> is its start (and end) point, the
  simulation divides by zero and there is no result.
\<close>

theorem gain_scales_each_channel:
  assumes e: "e = create_rumble_effect eid g eff c"
  shows "(start_point e \<le> now \<and> now \<le> end_point e \<longrightarrow>
            simulate_rumble e now =
              map_option (\<lambda>(w, s). (w * word_of_int g div 65535, s * word_of_int g div 65535))
                (phase_values e (duration_cast_ms (end_point e - now))
                   (length_ms e - duration_cast_ms (end_point e - now))))
       \<and> (g = 0 \<longrightarrow>
            (simulate_rumble e now = Some (0, 0) \<longleftrightarrow>
               \<not> (now = start_point e \<and> length_ms e = 0 \<and>
                  attack_length (envelope e) = 0 \<and> fade_length (envelope e) = 0)))"
proof (intro conjI impI)
  have g: "gain e = g" unfolding e by simp
  assume "start_point e \<le> now \<and> now \<le> end_point e"
  then show "simulate_rumble e now =
              map_option (\<lambda>(w, s). (w * word_of_int g div 65535, s * word_of_int g div 65535))
                (phase_values e (duration_cast_ms (end_point e - now))
                   (length_ms e - duration_cast_ms (end_point e - now)))"
    using simulate_rumble_in_range [of e now] g
    by (simp add: apply_gain_def MAX_GAIN_def)
next
  have g: "gain e = g" unfolding e by simp
  have wf: "end_point e = start_point e + ms_to_ns (length_ms e)"
    unfolding e by (rule created_end)
  assume g0: "g = 0"
  have none: "simulate_rumble e now = None \<longleftrightarrow>
               now = start_point e \<and> length_ms e = 0 \<and>
               attack_length (envelope e) = 0 \<and> fade_length (envelope e) = 0"
    by (rule simulate_rumble_None_iff [OF wf])
  have some: "simulate_rumble e now = Some p \<Longrightarrow> p = (0, 0)" for p
    using g g0
    by (auto simp: simulate_rumble_def Let_def apply_gain_zero split: if_splits option.splits)
  show "simulate_rumble e now = Some (0, 0) \<longleftrightarrow>
               \<not> (now = start_point e \<and> length_ms e = 0 \<and>
                  attack_length (envelope e) = 0 \<and> fade_length (envelope e) = 0)"
  proof (cases "simulate_rumble e now")
    case None
    then show ?thesis using none by simp
  next
    case (Some p)
    then show ?thesis using none some [of p] by simp
  qed
qed

theorem gain_scales_each_channel_witness:
  "simulate_rumble (create_rumble_effect 0 0 rumble_desc 0) 20000000 = Some (0, 0)
   \<and> simulate_rumble (create_rumble_effect 0 30000 rumble_desc 0) 20000000 = Some (45, 91)"
proof -
  let ?e = "create_rumble_effect 0 0 rumble_desc 0"
  let ?h = "create_rumble_effect 0 30000 rumble_desc 0"
  have a: "\<not> (20000000 = start_point ?e \<and> length_ms ?e = 0 \<and>
              attack_length (envelope ?e) = 0 \<and> fade_length (envelope ?e) = 0)"
    by (simp add: simulate_defs rumble_desc_def)
  have "simulate_rumble ?e 20000000 = Some (0, 0) \<longleftrightarrow>
          \<not> (20000000 = start_point ?e \<and> length_ms ?e = 0 \<and>
             attack_length (envelope ?e) = 0 \<and> fade_length (envelope ?e) = 0)"
    using gain_scales_each_channel [of ?e 0 0 rumble_desc 0 20000000, OF refl, THEN conjunct2]
    by simp
  then have z: "simulate_rumble ?e 20000000 = Some (0, 0)" using a by (rule iffD2)
  have r: "start_point ?h \<le> 20000000 \<and> 20000000 \<le> end_point ?h"
    by (simp add: simulate_defs rumble_desc_def)
  have pv: "phase_values ?h (duration_cast_ms (end_point ?h - 20000000))
              (length_ms ?h - duration_cast_ms (end_point ?h - 20000000)) = Some (100, 200)"
    by (simp add: simulate_defs rumble_desc_def)
  have "simulate_rumble ?h 20000000 =
          map_option (\<lambda>(w, s). (w * word_of_int 30000 div 65535, s * word_of_int 30000 div 65535))
            (phase_values ?h (duration_cast_ms (end_point ?h - 20000000))
               (length_ms ?h - duration_cast_ms (end_point ?h - 20000000)))"
    using gain_scales_each_channel [of ?h 0 30000 rumble_desc 0 20000000, OF refl, THEN conjunct1] r
    by (rule mp)
  then have h: "simulate_rumble ?h 20000000 = Some (45, 91)"
    unfolding pv by simp
  show ?thesis using z h by simp
qed

text \<open>
  The claim as stated fails on a rumble effect of replay length 0 activated with gain 0 at
  clock 0 and simulated at \<open>now = 0\<close>: the sustain branch divides by the length 0 before
  the gain is applied, and the result is not \<open>(0, 0)\<close>.
\<close>

theorem gain_zero_division_counterexample:
  "gain (create_rumble_effect 2 0 zero_length_desc 0) = 0
   \<and> simulate_rumble (create_rumble_effect 2 0 zero_length_desc 0) 0 = None
   \<and> simulate_rumble (create_rumble_effect 2 0 zero_length_desc 0) 0 \<noteq> Some (0, 0)"
  by (simp add: simulate_defs zero_length_desc_def)

text \<open>
  C8. A play event for an id that the map \<^verbatim>\<open>ff_effects\<close> does not hold leaves the whole
  state as it is. For any event, every instance in the active set after it was in the set
  before, or its id is held by the map at the time the event is handled.
\<close>

theorem unknown_activation_dropped:
  "(ev_type ev = EV_FF \<and> ev_code ev \<noteq> FF_GAIN \<and> ev_value ev \<noteq> 0 \<and>
    ff_effects s (uint (ev_code ev)) = None \<longrightarrow> process_event on_rumble s ev = s)
   \<and> (\<forall>x \<in> set (active_effects (process_event on_rumble s ev)).
         x \<in> set (active_effects s) \<or> ff_effects s (effect_id x) \<noteq> None)"
proof (intro conjI impI ballI)
  assume "ev_type ev = EV_FF \<and> ev_code ev \<noteq> FF_GAIN \<and> ev_value ev \<noteq> 0 \<and>
    ff_effects s (uint (ev_code ev)) = None"
  then show "process_event on_rumble s ev = s"
    by (simp add: process_event_def EV_FF_def EV_UINPUT_def Let_def)
next
  fix x
  assume "x \<in> set (active_effects (process_event on_rumble s ev))"
  then show "x \<in> set (active_effects s) \<or> ff_effects s (effect_id x) \<noteq> None"
    by (auto simp: process_event_def remove_effects_eq Let_def split: if_splits option.splits)
qed

theorem unknown_activation_dropped_witness:
  "process_event True initial_state (play_event 5 1 0) = initial_state
   \<and> create_rumble_effect 0 65535 rumble_desc 0 \<in>
       set (active_effects (process_event True
              (process_event True initial_state (upload_event rumble_desc)) (play_event 0 1 0)))
   \<and> ff_effects (process_event True initial_state (upload_event rumble_desc))
        (effect_id (create_rumble_effect 0 65535 rumble_desc 0)) \<noteq> None"
proof -
  let ?s1 = "process_event True initial_state (upload_event rumble_desc)"
  let ?x = "create_rumble_effect 0 65535 rumble_desc 0"
  have miss: "ev_type (play_event 5 1 0) = EV_FF \<and> ev_code (play_event 5 1 0) \<noteq> FF_GAIN \<and>
              ev_value (play_event 5 1 0) \<noteq> 0 \<and>
              ff_effects initial_state (uint (ev_code (play_event 5 1 0))) = None"
    by (simp add: event_defs initial_state_def)
  have 1: "process_event True initial_state (play_event 5 1 0) = initial_state"
    using unknown_activation_dropped [of "play_event 5 1 0" initial_state True, THEN conjunct1] miss
    by (rule mp)
  have id0: "sint (ff_id rumble_desc) = 0" by (simp add: rumble_desc_def)
  have mem: "?x \<in> set (active_effects (process_event True ?s1 (play_event 0 1 0)))"
    and old: "?x \<notin> set (active_effects ?s1)"
    by (simp_all add: process_event_def initial_state_def event_defs id0 MAX_GAIN_def)
  have "?x \<in> set (active_effects ?s1) \<or> ff_effects ?s1 (effect_id ?x) \<noteq> None"
    using unknown_activation_dropped [of "play_event 0 1 0" ?s1 True, THEN conjunct2] mem
    by (rule bspec)
  then have 3: "ff_effects ?s1 (effect_id ?x) \<noteq> None" using old by blast
  show ?thesis using 1 mem 3 by blast
qed

text \<open>
  C9, as amended. For an instance built by \<open>create_rumble_effect\<close> with gain 65535 whose
  attack length \<open>A\<close> is positive and even: at a time \<open>now\<close> inside
  \<open>[start_point, end_point]\<close> at which the elapsed time \<open>t\<close> is \<open>A / 2\<close> milliseconds, both
  channels are \<open>attack_level\<close> divided by 2, rounded down.
\<close>

theorem attack_midpoint_even:
  assumes e: "e = create_rumble_effect eid 65535 eff c"
    and A0: "0 < uint (attack_length (envelope e))"
    and Aeven: "even (uint (attack_length (envelope e)))"
    and r: "start_point e \<le> now" "now \<le> end_point e"
    and t: "length_ms e - duration_cast_ms (end_point e - now) =
              uint (attack_length (envelope e)) div 2"
  shows "simulate_rumble e now =
           Some (word_of_int (uint (attack_level (envelope e)) div 2),
                 word_of_int (uint (attack_level (envelope e)) div 2))"
proof -
  let ?A = "uint (attack_length (envelope e))"
  let ?L = "uint (attack_level (envelope e))"
  let ?t = "?A div 2"
  let ?v = "word_of_int (?L div 2) :: u32"
  have tA: "?t < ?A" and t0: "0 \<le> ?t" using A0 by simp_all
  have "cdiv (?L * ?t) ?A = Some (?L * ?t div ?A)"
    using t0 A0 by (simp add: cdiv_nonneg)
  then have mix: "envelope_mix (attack_level (envelope e)) ?t 0 (attack_length (envelope e)) = Some ?v"
    using even_half_quotient [OF A0 Aeven, of ?L] by (simp add: envelope_mix_def)
  have pv: "phase_values e (duration_cast_ms (end_point e - now)) ?t = Some (?v, ?v)"
    using tA mix by (simp add: phase_values_def Let_def)
  have Lb: "?L div 2 \<le> 65535"
  proof -
    have "?L < 2 ^ 16" using uint_bounded [of "attack_level (envelope e)"] by simp
    then show ?thesis by simp
  qed
  have L0: "0 \<le> ?L div 2" by simp
  have "uint ?v = ?L div 2"
    using L0 Lb by (simp add: uint_word_of_int take_bit_int_eq_self)
  then have "uint ?v \<le> 65535" using Lb by simp
  then have ag: "apply_gain ?v 65535 = ?v" by (rule apply_gain_max)
  have g: "gain e = 65535" unfolding e by simp
  show ?thesis
    using simulate_rumble_in_range [OF r] pv ag g t by simp
qed

theorem attack_midpoint_even_witness:
  "simulate_rumble (create_rumble_effect 3 65535 attack4_desc 0) 2000000 = Some (30000, 30000)"
proof -
  let ?e = "create_rumble_effect 3 65535 attack4_desc 0"
  have env: "envelope ?e = \<lparr>attack_length = 4, attack_level = 60000,
                            fade_length = 0, fade_level = 0\<rparr>"
    by (simp add: simulate_defs attack4_desc_def)
  have A0: "0 < uint (attack_length (envelope ?e))" unfolding env by simp
  have Aeven: "even (uint (attack_length (envelope ?e)))" unfolding env by simp
  have r: "start_point ?e \<le> 2000000" "2000000 \<le> end_point ?e"
    by (simp_all add: simulate_defs attack4_desc_def)
  have t: "length_ms ?e - duration_cast_ms (end_point ?e - 2000000) =
             uint (attack_length (envelope ?e)) div 2"
    unfolding env by (simp add: simulate_defs attack4_desc_def)
  from attack_midpoint_even [OF refl A0 Aeven r t]
  show ?thesis unfolding env by simp
qed

text \<open>
  The claim as stated fails for an attack length of 3 ms and an attack level of 60000 at
  gain 65535. One millisecond after the start (\<open>3 div 2\<close>) both channels are 20000; one
  and a half milliseconds after the start the elapsed time counts as 2 ms and both
  channels are 40000. Half the level is 30000.
\<close>

theorem attack_midpoint_counterexample:
  "uint (attack_length (envelope (create_rumble_effect 3 65535 attack3_desc 0))) = 3
   \<and> uint (attack_level (envelope (create_rumble_effect 3 65535 attack3_desc 0))) = 60000
   \<and> gain (create_rumble_effect 3 65535 attack3_desc 0) = 65535
   \<and> length_ms (create_rumble_effect 3 65535 attack3_desc 0) -
       duration_cast_ms (end_point (create_rumble_effect 3 65535 attack3_desc 0) - 1000000) = 3 div 2
   \<and> simulate_rumble (create_rumble_effect 3 65535 attack3_desc 0) 1000000 = Some (20000, 20000)
   \<and> \<not> half_within_rounding 60000 20000
   \<and> simulate_rumble (create_rumble_effect 3 65535 attack3_desc 0) 1500000 = Some (40000, 40000)
   \<and> \<not> half_within_rounding 60000 40000"
  by (simp add: simulate_defs attack3_desc_def half_within_rounding_def)

text \<open>
  C10, as amended. The magnitudes built from a constant, periodic or ramp effect are the
  sign extension of the signed 16-bit levels to 32 bits; as unsigned numbers they are the
  levels modulo \<open>2^32\<close>, that is \<open>2^32 + l\<close> for a negative level \<open>l\<close>. In the sustain phase
  the simulation works on these wrapped magnitudes; nothing is clamped and no absolute
  value is taken. Both channels are the same value: the difference of the wrapped
  magnitudes is taken modulo \<open>2^32\<close>, its product with the elapsed time and the quotient
  by the length are exact (64-bit in the program, not reduced), the sum with the start
  magnitude is reduced modulo \<open>2^32\<close>, and the product with the gain is reduced modulo
  \<open>2^32\<close> before the division by 65535.
\<close>

theorem negative_levels_wrap:
  assumes e: "e = create_rumble_effect eid g eff c"
    and k: "u eff = FF_CONSTANT l env \<and> l' = l \<or> u eff = FF_PERIODIC l env \<and> l' = l \<or>
            u eff = FF_RAMP l l' env"
    and tl: "time_left = duration_cast_ms (end_point e - now)"
    and t: "t = length_ms e - time_left"
    and S: "S = sint l mod 2 ^ 32"
    and E: "E = sint l' mod 2 ^ 32"
  shows "start_mag e = \<lparr>weak = word_of_int (sint l), strong = word_of_int (sint l)\<rparr>
       \<and> end_mag e = \<lparr>weak = word_of_int (sint l'), strong = word_of_int (sint l')\<rparr>
       \<and> uint (weak (start_mag e)) = S \<and> uint (strong (start_mag e)) = S
       \<and> uint (weak (end_mag e)) = E \<and> uint (strong (end_mag e)) = E
       \<and> (sint l < 0 \<longrightarrow> S = 2 ^ 32 + sint l)
       \<and> (sint l' < 0 \<longrightarrow> E = 2 ^ 32 + sint l')
       \<and> (start_point e \<le> now \<and> now \<le> end_point e \<and>
          \<not> t < uint (attack_length (envelope e)) \<and>
          \<not> time_left < uint (fade_length (envelope e)) \<and> 0 < length_ms e \<longrightarrow>
            (\<exists>p v. phase_values e time_left t = Some (p, p)
              \<and> uint p = (S + ((E - S) mod 2 ^ 32) * t div length_ms e) mod 2 ^ 32
              \<and> simulate_rumble e now = Some (v, v)
              \<and> uint v = (uint p * (g mod 2 ^ 32)) mod 2 ^ 32 div 65535))"
proof -
  have wf: "end_point e = start_point e + ms_to_ns (length_ms e)"
    unfolding e by (rule created_end)
  have sm: "start_mag e = \<lparr>weak = word_of_int (sint l), strong = word_of_int (sint l)\<rparr>"
    and em: "end_mag e = \<lparr>weak = word_of_int (sint l'), strong = word_of_int (sint l')\<rparr>"
    unfolding e using created_levels [OF k] by simp_all
  have us: "uint (weak (start_mag e)) = S" "uint (strong (start_mag e)) = S"
    unfolding sm S by (simp_all only: magnitudes.simps uint_level)
  have ue: "uint (weak (end_mag e)) = E" "uint (strong (end_mag e)) = E"
    unfolding em E by (simp_all only: magnitudes.simps uint_level)
  have nS: "sint l < 0 \<longrightarrow> S = 2 ^ 32 + sint l"
    unfolding S using negative_level_mod [of l] by blast
  have nE: "sint l' < 0 \<longrightarrow> E = 2 ^ 32 + sint l'"
    unfolding E using negative_level_mod [of l'] by blast
  have ex: "start_point e \<le> now \<and> now \<le> end_point e \<and>
          \<not> t < uint (attack_length (envelope e)) \<and>
          \<not> time_left < uint (fade_length (envelope e)) \<and> 0 < length_ms e \<longrightarrow>
            (\<exists>p v. phase_values e time_left t = Some (p, p)
              \<and> uint p = (S + ((E - S) mod 2 ^ 32) * t div length_ms e) mod 2 ^ 32
              \<and> simulate_rumble e now = Some (v, v)
              \<and> uint v = (uint p * (g mod 2 ^ 32)) mod 2 ^ 32 div 65535)"
  proof
    assume h: "start_point e \<le> now \<and> now \<le> end_point e \<and>
          \<not> t < uint (attack_length (envelope e)) \<and>
          \<not> time_left < uint (fade_length (envelope e)) \<and> 0 < length_ms e"
    then have r: "start_point e \<le> now" "now \<le> end_point e"
      and na: "\<not> t < uint (attack_length (envelope e))"
      and nf: "\<not> time_left < uint (fade_length (envelope e))"
      and len: "0 < length_ms e"
      by simp_all
    define p :: u32 where "p = word_of_int (uint (weak (start_mag e)) +
                   uint (weak (end_mag e) - weak (start_mag e)) * t div length_ms e)"
    have p': "p = word_of_int (uint (strong (start_mag e)) +
                   uint (strong (end_mag e) - strong (start_mag e)) * t div length_ms e)"
      unfolding p_def sm em by (simp only: magnitudes.simps)
    note res = sustain_phase_result [OF wf r tl t na nf len p_def p']
    have g: "gain e = g" unfolding e by simp
    have up: "uint p = (S + ((E - S) mod 2 ^ 32) * t div length_ms e) mod 2 ^ 32"
      unfolding p_def
      using uint_sustain_value [of "weak (start_mag e)" "weak (end_mag e)" t "length_ms e"]
      by (simp only: us ue)
    have sim: "simulate_rumble e now = Some (apply_gain p g, apply_gain p g)"
      using res(2) g by simp
    have uv: "uint (apply_gain p g) = (uint p * (g mod 2 ^ 32)) mod 2 ^ 32 div 65535"
      by (rule uint_apply_gain)
    show "\<exists>p v. phase_values e time_left t = Some (p, p)
              \<and> uint p = (S + ((E - S) mod 2 ^ 32) * t div length_ms e) mod 2 ^ 32
              \<and> simulate_rumble e now = Some (v, v)
              \<and> uint v = (uint p * (g mod 2 ^ 32)) mod 2 ^ 32 div 65535"
      using res(1) up sim uv by blast
  qed
  show ?thesis by (intro conjI) (rule sm em us ue nS nE ex)+
qed

text \<open>
  The constant level \<open>-1\<close> becomes the magnitude 4294967295 and simulates to 65536 at gain
  65535. The ramp from 0 to the level \<open>-1\<close> has the value 1073741823 before the gain 250 ms
  after its start and simulates to 49151.
\<close>

theorem negative_levels_wrap_witness:
  "start_mag (create_rumble_effect 4 65535 negative_desc 0) =
     \<lparr>weak = 4294967295, strong = 4294967295\<rparr>
   \<and> simulate_rumble (create_rumble_effect 4 65535 negative_desc 0) 250000000 =
       Some (65536, 65536)
   \<and> phase_values (create_rumble_effect 6 65535 ramp_neg_desc 0) 750 250 =
       Some (1073741823, 1073741823)
   \<and> simulate_rumble (create_rumble_effect 6 65535 ramp_neg_desc 0) 250000000 =
       Some (49151, 49151)"
proof -
  let ?c = "create_rumble_effect 4 65535 negative_desc 0"
  let ?e = "create_rumble_effect 6 65535 ramp_neg_desc 0"
  have word_eq: "uint x = n \<Longrightarrow> x = word_of_int n" for x :: u32 and n
    using word_of_int_uint [of x] by simp
  have kc: "u negative_desc = FF_CONSTANT (- 1) no_envelope \<and> (- 1 :: 16 word) = - 1 \<or>
            u negative_desc = FF_PERIODIC (- 1) no_envelope \<and> (- 1 :: 16 word) = - 1 \<or>
            u negative_desc = FF_RAMP (- 1) (- 1) no_envelope"
    by (simp add: negative_desc_def)
  have rc: "start_point ?c \<le> 250000000" "250000000 \<le> end_point ?c"
    and tlc: "750 = duration_cast_ms (end_point ?c - 250000000)"
    and tc: "250 = length_ms ?c - 750"
    and nac: "\<not> 250 < uint (attack_length (envelope ?c))"
    and nfc: "\<not> 750 < uint (fade_length (envelope ?c))"
    and lenc: "0 < length_ms ?c"
    and Lc: "length_ms ?c = 1000"
    by (simp_all add: simulate_defs negative_desc_def)
  note thc = negative_levels_wrap [OF refl kc tlc tc refl refl]
  have 1: "start_mag ?c = \<lparr>weak = 4294967295, strong = 4294967295\<rparr>"
    using thc [THEN conjunct1] by simp
  note exc = thc [THEN conjunct2, THEN conjunct2, THEN conjunct2, THEN conjunct2,
      THEN conjunct2, THEN conjunct2, THEN conjunct2, THEN conjunct2]
  have hc: "start_point ?c \<le> 250000000 \<and> 250000000 \<le> end_point ?c \<and>
            \<not> 250 < uint (attack_length (envelope ?c)) \<and>
            \<not> 750 < uint (fade_length (envelope ?c)) \<and> 0 < length_ms ?c"
    using rc nac nfc lenc by simp
  from exc [THEN mp, OF hc] obtain p v where
    allc: "phase_values ?c 750 250 = Some (p, p) \<and>
      uint p = (sint (- 1 :: 16 word) mod 2 ^ 32 +
           ((sint (- 1 :: 16 word) mod 2 ^ 32 - sint (- 1 :: 16 word) mod 2 ^ 32) mod 2 ^ 32) * 250
             div length_ms ?c) mod 2 ^ 32 \<and>
      simulate_rumble ?c 250000000 = Some (v, v) \<and>
      uint v = (uint p * (65535 mod 2 ^ 32)) mod 2 ^ 32 div 65535"
    by (elim exE) (rule that)
  note pc = allc [THEN conjunct2, THEN conjunct1]
    and sc = allc [THEN conjunct2, THEN conjunct2, THEN conjunct1]
    and vc = allc [THEN conjunct2, THEN conjunct2, THEN conjunct2]
  have "uint p = 4294967295" using pc unfolding Lc by simp
  then have "uint v = 65536" using vc by simp
  then have "v = 65536" using word_eq [of v 65536] by simp
  then have 2: "simulate_rumble ?c 250000000 = Some (65536, 65536)" using sc by simp
  have ke: "u ramp_neg_desc = FF_CONSTANT 0 no_envelope \<and> (- 1 :: 16 word) = 0 \<or>
            u ramp_neg_desc = FF_PERIODIC 0 no_envelope \<and> (- 1 :: 16 word) = 0 \<or>
            u ramp_neg_desc = FF_RAMP 0 (- 1) no_envelope"
    by (simp add: ramp_neg_desc_def)
  have re: "start_point ?e \<le> 250000000" "250000000 \<le> end_point ?e"
    and tle: "750 = duration_cast_ms (end_point ?e - 250000000)"
    and te: "250 = length_ms ?e - 750"
    and nae: "\<not> 250 < uint (attack_length (envelope ?e))"
    and nfe: "\<not> 750 < uint (fade_length (envelope ?e))"
    and lene: "0 < length_ms ?e"
    and Le: "length_ms ?e = 1000"
    by (simp_all add: simulate_defs ramp_neg_desc_def)
  note the = negative_levels_wrap [OF refl ke tle te refl refl]
  note exe = the [THEN conjunct2, THEN conjunct2, THEN conjunct2, THEN conjunct2,
      THEN conjunct2, THEN conjunct2, THEN conjunct2, THEN conjunct2]
  have he: "start_point ?e \<le> 250000000 \<and> 250000000 \<le> end_point ?e \<and>
            \<not> 250 < uint (attack_length (envelope ?e)) \<and>
            \<not> 750 < uint (fade_length (envelope ?e)) \<and> 0 < length_ms ?e"
    using re nae nfe lene by simp
  from exe [THEN mp, OF he] obtain q w where
    alle: "phase_values ?e 750 250 = Some (q, q) \<and>
      uint q = (sint (0 :: 16 word) mod 2 ^ 32 +
           ((sint (- 1 :: 16 word) mod 2 ^ 32 - sint (0 :: 16 word) mod 2 ^ 32) mod 2 ^ 32) * 250
             div length_ms ?e) mod 2 ^ 32 \<and>
      simulate_rumble ?e 250000000 = Some (w, w) \<and>
      uint w = (uint q * (65535 mod 2 ^ 32)) mod 2 ^ 32 div 65535"
    by (elim exE) (rule that)
  note pq = alle [THEN conjunct1] and uq = alle [THEN conjunct2, THEN conjunct1]
    and se = alle [THEN conjunct2, THEN conjunct2, THEN conjunct1]
    and uw = alle [THEN conjunct2, THEN conjunct2, THEN conjunct2]
  have q: "uint q = 1073741823" using uq unfolding Le by simp
  then have "q = 1073741823" using word_eq [of q 1073741823] by simp
  then have 3: "phase_values ?e 750 250 = Some (1073741823, 1073741823)" using pq by simp
  have "uint w = 49151" using uw q by simp
  then have "w = 49151" using word_eq [of w 49151] by simp
  then have 4: "simulate_rumble ?e 250000000 = Some (49151, 49151)" using se by simp
  show ?thesis using 1 2 3 4 by simp
qed

text \<open>
  The claim as stated fails on the ramp from 0 to the level \<open>-1\<close>, 250 ms after its start:
  with the product and the quotient taken modulo \<open>2^32\<close> as well the value before the gain
  would be 4294967 and the result 35061; the code computes 1073741823 and 49151.
\<close>

theorem negative_ramp_mod32_counterexample:
  "start_mag (create_rumble_effect 6 65535 ramp_neg_desc 0) = \<lparr>weak = 0, strong = 0\<rparr>
   \<and> end_mag (create_rumble_effect 6 65535 ramp_neg_desc 0) =
       \<lparr>weak = 4294967295, strong = 4294967295\<rparr>
   \<and> phase_values (create_rumble_effect 6 65535 ramp_neg_desc 0) 750 250 =
       Some (1073741823, 1073741823)
   \<and> sustain_mod32 0 4294967295 250 1000 = 4294967
   \<and> simulate_rumble (create_rumble_effect 6 65535 ramp_neg_desc 0) 250000000 =
       Some (49151, 49151)
   \<and> apply_gain (sustain_mod32 0 4294967295 250 1000) 65535 = 35061"
  by code_simp

end
